theory Spec2Isabelle
  imports Complex_Main "HOL-Library.Sublist" "HOL-Library.Log_Nat"
begin

section \<open>Python values\<close>

text \<open>
  The program is the single module \<^verbatim>\<open>checkin.py\<close>. Its data are Python strings and the
  values that \<^verbatim>\<open>json.loads\<close> and \<^verbatim>\<open>Response.json()\<close> hand back. A Python \<^verbatim>\<open>str\<close> is a
  sequence of Unicode code points, and \<^verbatim>\<open>len\<close>, slicing and \<^verbatim>\<open>strip\<close> count code points,
  so a string is modelled as a list of code points (natural numbers). The literals of the
  source that are not ASCII are written out as code points, with a translation beside them.
\<close>

type_synonym pystr = "nat list"

definition ascii :: "string \<Rightarrow> pystr" where
  "ascii s = map of_char s"

text \<open>
  A Python \<^verbatim>\<open>float\<close> is an IEEE double: a finite value \<open>m * 2 ^ e\<close> (kept as the pair
  \<open>Finite m e\<close>, with \<open>m\<close> signed), minus zero, an infinity or a NaN (\<^verbatim>\<open>json.loads\<close> accepts
  \<^verbatim>\<open>Infinity\<close> and \<^verbatim>\<open>NaN\<close>).
\<close>

datatype pyfloat = Finite int int | NegZero | PosInf | NegInf | NaN

text \<open>
  What JSON decoding can produce: \<^verbatim>\<open>None\<close>, \<^verbatim>\<open>bool\<close>, \<^verbatim>\<open>int\<close> (unbounded), \<^verbatim>\<open>float\<close>,
  \<^verbatim>\<open>str\<close>, \<^verbatim>\<open>list\<close> and \<^verbatim>\<open>dict\<close> with string keys. A dict is an association list read
  with \<open>map_of\<close>: the first pair of a key is the dict's entry for it.
\<close>

datatype pyval =
    PNone
  | PBool bool
  | PInt int
  | PFloat pyfloat
  | PStr pystr
  | PList "pyval list"
  | PDict "(pystr \<times> pyval) list"

text \<open>
  Exceptions, each with the text \<^verbatim>\<open>str(e)\<close> gives. \<open>SystemExit\<close> is what \<^verbatim>\<open>sys.exit\<close>
  raises; it is the one class here that \<^verbatim>\<open>except Exception\<close> does not catch.
\<close>

datatype exn =
    AttributeError pystr
  | TypeError pystr
  | OverflowError pystr
  | OtherError pystr
  | SystemExit int

fun is_Exception :: "exn \<Rightarrow> bool" where
  "is_Exception (SystemExit c) = False"
| "is_Exception e = True"

subsection \<open>Decimal text of integers\<close>

fun str_nat :: "nat \<Rightarrow> pystr" where
  "str_nat n = (if n < 10 then [48 + n] else str_nat (n div 10) @ [48 + n mod 10])"

declare str_nat.simps [simp del]

definition str_int :: "int \<Rightarrow> pystr" where
  "str_int i = (if i < 0 then 45 # str_nat (nat (- i)) else str_nat (nat i))"

fun exn_str :: "exn \<Rightarrow> pystr" where
  "exn_str (AttributeError t) = t"
| "exn_str (TypeError t) = t"
| "exn_str (OverflowError t) = t"
| "exn_str (OtherError t) = t"
| "exn_str (SystemExit c) = str_int c"

subsection \<open>Truth value, type name, \<^verbatim>\<open>dict.get\<close>, \<^verbatim>\<open>str()\<close>\<close>

fun float_truthy :: "pyfloat \<Rightarrow> bool" where
  "float_truthy (Finite m e) = (m \<noteq> 0)"
| "float_truthy NegZero = False"
| "float_truthy PosInf = True"
| "float_truthy NegInf = True"
| "float_truthy NaN = True"

fun truthy :: "pyval \<Rightarrow> bool" where
  "truthy PNone = False"
| "truthy (PBool b) = b"
| "truthy (PInt i) = (i \<noteq> 0)"
| "truthy (PFloat f) = float_truthy f"
| "truthy (PStr s) = (s \<noteq> [])"
| "truthy (PList xs) = (xs \<noteq> [])"
| "truthy (PDict kvs) = (kvs \<noteq> [])"

fun type_name :: "pyval \<Rightarrow> pystr" where
  "type_name PNone = ascii ''NoneType''"
| "type_name (PBool b) = ascii ''bool''"
| "type_name (PInt i) = ascii ''int''"
| "type_name (PFloat f) = ascii ''float''"
| "type_name (PStr s) = ascii ''str''"
| "type_name (PList xs) = ascii ''list''"
| "type_name (PDict kvs) = ascii ''dict''"

text \<open>Reading an attribute that the value's type does not have (code point 39 is the
  apostrophe).\<close>

definition attribute_error :: "pyval \<Rightarrow> string \<Rightarrow> exn" where
  "attribute_error v a =
     AttributeError ([39] @ type_name v @ [39] @ ascii '' object has no attribute ''
                     @ [39] @ ascii a @ [39])"

text \<open>\<^verbatim>\<open>v.get(k, d)\<close>: only a dict has the method.\<close>

fun py_get :: "pyval \<Rightarrow> pystr \<Rightarrow> pyval \<Rightarrow> exn + pyval" where
  "py_get (PDict kvs) k d = Inr (case map_of kvs k of None \<Rightarrow> d | Some v \<Rightarrow> v)"
| "py_get v k d = Inl (attribute_error v ''get'')"

text \<open>
  \<^verbatim>\<open>str(v)\<close>, as an f-string applies it. The text of a float, a list or a dict is Python's
  \<^verbatim>\<open>repr\<close> of it (shortest round-trip digits, quoting and escaping of nested strings),
  which is not part of this repository: it is the parameter \<open>rp\<close>.
\<close>

fun py_str :: "(pyval \<Rightarrow> pystr) \<Rightarrow> pyval \<Rightarrow> pystr" where
  "py_str rp PNone = ascii ''None''"
| "py_str rp (PBool b) = (if b then ascii ''True'' else ascii ''False'')"
| "py_str rp (PInt i) = str_int i"
| "py_str rp (PStr s) = s"
| "py_str rp v = rp v"

section \<open>The session client: \<^verbatim>\<open>NewAPICheckin.checkin\<close>\<close>

text \<open>
  What one HTTP exchange through \<^verbatim>\<open>requests\<close> gives the program: a response, of which the
  program reads \<^verbatim>\<open>status_code\<close>, \<^verbatim>\<open>text\<close> and \<^verbatim>\<open>json()\<close>, or an exception. \<^verbatim>\<open>json()\<close>
  returns the decoded value, raises \<^verbatim>\<open>JSONDecodeError\<close>, or raises something else
  (with the given text).
\<close>

datatype json_outcome = Parsed pyval | JSONDecodeError | JsonRaises pystr

record response =
  status_code :: int
  resp_text :: pystr
  json :: json_outcome

datatype http_result =
    Response response
  | RaisesTimeout
  | RaisesRequestException pystr
  | RaisesException pystr

record checkin_result =
  success :: bool
  message :: pyval
  checkin_date :: pyval
  quota_awarded :: pyval

text \<open>The message literals of \<^verbatim>\<open>checkin\<close>, as code points.\<close>

definition msg_auth_failed :: pystr where
  \<comment> \<open>"authentication failed: Session may have expired, please obtain it again"\<close>
  "msg_auth_failed = [0x8BA4, 0x8BC1, 0x5931, 0x8D25, 0x3A, 0x20, 0x53, 0x65, 0x73, 0x73, 0x69,
     0x6F, 0x6E, 0x20, 0x53EF, 0x80FD, 0x5DF2, 0x8FC7, 0x671F, 0xFF0C, 0x8BF7, 0x91CD, 0x65B0,
     0x83B7, 0x53D6]"

definition msg_format_error :: pystr where
  \<comment> \<open>"response format error (HTTP "\<close>
  "msg_format_error = [0x54CD, 0x5E94, 0x683C, 0x5F0F, 0x9519, 0x8BEF, 0x20, 0x28, 0x48, 0x54,
     0x54, 0x50, 0x20]"

definition msg_empty_response :: pystr where
  \<comment> \<open>"(empty response)"\<close>
  "msg_empty_response = [0x28, 0x7A7A, 0x54CD, 0x5E94, 0x29]"

definition msg_checkin_ok :: pystr where
  \<comment> \<open>"check-in succeeded", the default success text\<close>
  "msg_checkin_ok = [0x7B7E, 0x5230, 0x6210, 0x529F]"

definition msg_checkin_failed :: pystr where
  \<comment> \<open>"check-in failed"\<close>
  "msg_checkin_failed = [0x7B7E, 0x5230, 0x5931, 0x8D25]"

definition msg_unknown_error :: pystr where
  \<comment> \<open>"unknown error"\<close>
  "msg_unknown_error = [0x672A, 0x77E5, 0x9519, 0x8BEF]"

definition msg_timeout :: pystr where
  \<comment> \<open>"request timed out"\<close>
  "msg_timeout = [0x8BF7, 0x6C42, 0x8D85, 0x65F6]"

definition msg_network_failed :: pystr where
  \<comment> \<open>"network request failed: "\<close>
  "msg_network_failed = [0x7F51, 0x7EDC, 0x8BF7, 0x6C42, 0x5931, 0x8D25, 0x3A, 0x20]"

text \<open>
  Lines 342 to 355, run inside the outer \<^verbatim>\<open>try\<close>: the result dict is updated field by
  field, so the function returns the dict as it stands when the block ends or raises,
  together with the exception raised, if any.
\<close>

definition checkin_body ::
  "(pyval \<Rightarrow> pystr) \<Rightarrow> response \<Rightarrow> pyval \<Rightarrow> checkin_result \<Rightarrow> exn option \<times> checkin_result"
where
  "checkin_body rp resp data result =
     (if status_code resp = 200 then
        (case py_get data (ascii ''success'') PNone of
           Inl e \<Rightarrow> (Some e, result)
         | Inr s \<Rightarrow>
             if truthy s then
               (let result1 = result\<lparr>success := True\<rparr> in
                case py_get data (ascii ''message'') (PStr msg_checkin_ok) of
                  Inl e \<Rightarrow> (Some e, result1)
                | Inr m \<Rightarrow>
                    (let result2 = result1\<lparr>message := m\<rparr> in
                     case py_get data (ascii ''data'') (PDict []) of
                       Inl e \<Rightarrow> (Some e, result2)
                     | Inr checkin_data \<Rightarrow>
                         (case py_get checkin_data (ascii ''checkin_date'') PNone of
                            Inl e \<Rightarrow> (Some e, result2)
                          | Inr d \<Rightarrow>
                              (let result3 = result2\<lparr>checkin_date := d\<rparr> in
                               case py_get checkin_data (ascii ''quota_awarded'') PNone of
                                 Inl e \<Rightarrow> (Some e, result3)
                               | Inr q \<Rightarrow> (None, result3\<lparr>quota_awarded := q\<rparr>)))))
             else
               (case py_get data (ascii ''message'') (PStr msg_checkin_failed) of
                  Inl e \<Rightarrow> (Some e, result)
                | Inr m \<Rightarrow> (None, result\<lparr>message := m\<rparr>)))
      else
        (case py_get data (ascii ''message'') (PStr msg_unknown_error) of
           Inl e \<Rightarrow> (Some e, result)
         | Inr m \<Rightarrow>
             (None, result\<lparr>message :=
                PStr (ascii ''HTTP '' @ str_int (status_code resp) @ ascii '': '' @ py_str rp m)\<rparr>)))"

text \<open>The last handler, \<^verbatim>\<open>except Exception as e\<close>: only the message is overwritten.\<close>

definition unknown_error :: "pystr \<Rightarrow> checkin_result \<Rightarrow> checkin_result" where
  "unknown_error t result = result\<lparr>message := PStr (msg_unknown_error @ ascii '': '' @ t)\<rparr>"

text \<open>
  \<^verbatim>\<open>checkin\<close> on the outcome of its one \<^verbatim>\<open>POST /api/user/checkin\<close>. \<^verbatim>\<open>requests\<close>' \<^verbatim>\<open>Timeout\<close>
  is a \<^verbatim>\<open>RequestException\<close> and is caught by the handler written first.
\<close>

definition checkin :: "(pyval \<Rightarrow> pystr) \<Rightarrow> http_result \<Rightarrow> checkin_result" where
  "checkin rp r =
     (let result = \<lparr>success = False, message = PStr [], checkin_date = PNone,
                     quota_awarded = PNone\<rparr> in
      case r of
        RaisesTimeout \<Rightarrow> result\<lparr>message := PStr msg_timeout\<rparr>
      | RaisesRequestException t \<Rightarrow> result\<lparr>message := PStr (msg_network_failed @ t)\<rparr>
      | RaisesException t \<Rightarrow> unknown_error t result
      | Response resp \<Rightarrow>
          if status_code resp = 401 then result\<lparr>message := PStr msg_auth_failed\<rparr>
          else
            (case json resp of
               JSONDecodeError \<Rightarrow>
                 (let content_preview =
                        (if resp_text resp \<noteq> [] then take 200 (resp_text resp) else msg_empty_response)
                  in result\<lparr>message :=
                       PStr (msg_format_error @ str_int (status_code resp) @ ascii ''): ''
                             @ content_preview)\<rparr>)
             | JsonRaises t \<Rightarrow> unknown_error t result
             | Parsed data \<Rightarrow>
                 (case checkin_body rp resp data result of
                    (None, result') \<Rightarrow> result'
                  | (Some e, result') \<Rightarrow> unknown_error (exn_str e) result')))"

section \<open>The account parser: \<^verbatim>\<open>parse_accounts\<close>\<close>

subsection \<open>String operations\<close>

text \<open>
  \<^verbatim>\<open>str.strip()\<close> without argument removes the characters for which \<^verbatim>\<open>str.isspace()\<close>
  holds, at both ends. These are the code points CPython classifies as whitespace.
\<close>

definition py_isspace :: "nat \<Rightarrow> bool" where
  "py_isspace c \<longleftrightarrow>
     (9 \<le> c \<and> c \<le> 13) \<or> (28 \<le> c \<and> c \<le> 32) \<or> c = 0x85 \<or> c = 0xA0 \<or> c = 0x1680
     \<or> (0x2000 \<le> c \<and> c \<le> 0x200A) \<or> c = 0x2028 \<or> c = 0x2029 \<or> c = 0x202F
     \<or> c = 0x205F \<or> c = 0x3000"

definition strip :: "pystr \<Rightarrow> pystr" where
  "strip s = rev (dropWhile py_isspace (rev (dropWhile py_isspace s)))"

text \<open>\<^verbatim>\<open>s.split(sep)\<close> for a one-character separator: never an empty list.\<close>

fun split_on :: "nat \<Rightarrow> pystr \<Rightarrow> pystr list" where
  "split_on sep [] = [[]]"
| "split_on sep (c # cs) =
     (if c = sep then [] # split_on sep cs
      else (case split_on sep cs of
              [] \<Rightarrow> [[c]]
            | p # ps \<Rightarrow> (c # p) # ps))"

text \<open>
  \<^verbatim>\<open>url, session = part.split('#', 1)\<close>, used where \<^verbatim>\<open>'#' in part\<close> holds: what stands
  before the first \<open>#\<close> (code point 35) and everything after it.
\<close>

definition before_hash :: "pystr \<Rightarrow> pystr" where
  "before_hash part = takeWhile (\<lambda>c. c \<noteq> 35) part"

definition after_hash :: "pystr \<Rightarrow> pystr" where
  "after_hash part = tl (dropWhile (\<lambda>c. c \<noteq> 35) part)"

subsection \<open>Accounts\<close>

text \<open>
  An account is the dict \<^verbatim>\<open>parse_accounts\<close> builds: the keys \<^verbatim>\<open>url\<close>, \<^verbatim>\<open>session\<close> and
  \<^verbatim>\<open>name\<close> always, \<^verbatim>\<open>user_id\<close> and \<^verbatim>\<open>cf_clearance\<close> only when the JSON item has them. In
  the JSON form the values are whatever the item holds, not necessarily strings.
\<close>

record account =
  acc_url :: pyval
  acc_session :: pyval
  acc_name :: pyval
  acc_user_id :: "pyval option"
  acc_cf_clearance :: "pyval option"

text \<open>The body of the loop over the JSON list (lines 411 to 423), for one item.\<close>

definition item_account :: "pyval \<Rightarrow> account option" where
  "item_account item =
     (case item of
        PDict kvs \<Rightarrow>
          (case map_of kvs (ascii ''url'') of
             None \<Rightarrow> None
           | Some u \<Rightarrow>
               (case map_of kvs (ascii ''session'') of
                  None \<Rightarrow> None
                | Some s \<Rightarrow>
                    Some \<lparr>acc_url = u, acc_session = s,
                          acc_name = (case map_of kvs (ascii ''name'') of
                                        None \<Rightarrow> PStr [] | Some n \<Rightarrow> n),
                          acc_user_id = map_of kvs (ascii ''user_id''),
                          acc_cf_clearance = map_of kvs (ascii ''cf_clearance'')\<rparr>))
      | _ \<Rightarrow> None)"

fun json_accounts :: "pyval list \<Rightarrow> account list \<Rightarrow> account list" where
  "json_accounts [] accounts = accounts"
| "json_accounts (item # items) accounts =
     json_accounts items
       (case item_account item of None \<Rightarrow> accounts | Some a \<Rightarrow> accounts @ [a])"

text \<open>The loop over the comma-separated parts (lines 429 to 437).\<close>

definition simple_account :: "pystr \<Rightarrow> account" where
  "simple_account part =
     \<lparr>acc_url = PStr (strip (before_hash part)), acc_session = PStr (strip (after_hash part)),
      acc_name = PStr [], acc_user_id = None, acc_cf_clearance = None\<rparr>"

fun simple_accounts :: "pystr list \<Rightarrow> account list \<Rightarrow> account list" where
  "simple_accounts [] accounts = accounts"
| "simple_accounts (p # ps) accounts =
     (let part = strip p in
      simple_accounts ps
        (if 35 \<in> set part then accounts @ [simple_account part] else accounts))"

text \<open>
  \<^verbatim>\<open>parse_accounts\<close>. \<^verbatim>\<open>json.loads\<close> is the parameter \<open>loads\<close>. Only \<^verbatim>\<open>JSONDecodeError\<close> is
  caught; the \<^verbatim>\<open>return\<close> of the JSON form stands inside \<^verbatim>\<open>if isinstance(data, list)\<close>, so a
  decoded value that is not a list goes on to the comma-separated form (code point 44 is
  the comma).
\<close>

definition parse_accounts :: "(pystr \<Rightarrow> json_outcome) \<Rightarrow> pystr \<Rightarrow> exn + account list" where
  "parse_accounts loads accounts_str =
     (if accounts_str = [] then Inr []
      else
        (case loads accounts_str of
           JsonRaises t \<Rightarrow> Inl (OtherError t)
         | Parsed (PList items) \<Rightarrow> Inr (json_accounts items [])
         | _ \<Rightarrow> Inr (simple_accounts (split_on 44 accounts_str) [])))"

subsection \<open>Notions used to state what the parser returns\<close>

text \<open>What one comma-separated part contributes, and the comma-separated form as a whole.\<close>

definition part_accounts :: "pystr \<Rightarrow> account list" where
  "part_accounts p = (if 35 \<in> set (strip p) then [simple_account (strip p)] else [])"

definition delimited_accounts :: "pystr \<Rightarrow> account list" where
  "delimited_accounts s = concat (map part_accounts (split_on 44 s))"

definition lstrip :: "pystr \<Rightarrow> pystr" where
  "lstrip s = dropWhile py_isspace s"

definition rstrip :: "pystr \<Rightarrow> pystr" where
  "rstrip s = rev (dropWhile py_isspace (rev s))"

text \<open>
  Stand-ins for the library in the worked examples: a \<^verbatim>\<open>json.loads\<close> with a fixed outcome
  (each example names the outcome Python gives on its input) and a \<^verbatim>\<open>repr\<close> for
  examples that print no float, list or dict.
\<close>

definition loads_const :: "json_outcome \<Rightarrow> pystr \<Rightarrow> json_outcome" where
  "loads_const r s = r"

definition repr_unused :: "pyval \<Rightarrow> pystr" where
  "repr_unused v = []"

section \<open>The notification formatter: \<^verbatim>\<open>format_telegram_message\<close>\<close>

subsection \<open>Comparison, true division and \<^verbatim>\<open>.2f\<close> formatting\<close>

text \<open>
  The quota is scaled by \<^verbatim>\<open>quota / 1000\<close> or \<^verbatim>\<open>quota / 1000000\<close>, a true division whose
  result is a double, and printed with \<^verbatim>\<open>:.2f\<close>. Both steps are correctly rounded in
  CPython (to the nearest value, ties to even): the quotient to 53 significant bits, the
  text to two decimals of the double's exact value.

  \<open>rne_div a b\<close> is \<open>a / b\<close> rounded to the nearest integer, ties to even (\<open>b > 0\<close>).
  \<open>ilog2_ratio a b\<close> is the integer part of the binary logarithm of \<open>a / b\<close> (\<open>a, b > 0\<close>).
  \<open>double_of_ratio a b\<close> is the double nearest to \<open>a / b\<close>, as mantissa and exponent; the
  exponent does not go below that of the subnormal numbers.
\<close>

definition rne_div :: "int \<Rightarrow> int \<Rightarrow> int" where
  "rne_div a b =
     (let q = a div b; r = a mod b in
      if 2 * r < b then q else if b < 2 * r then q + 1 else if even q then q else q + 1)"

definition ilog2_ratio :: "int \<Rightarrow> int \<Rightarrow> int" where
  "ilog2_ratio a b =
     (let k = bitlen a - bitlen b in
      if (if 0 \<le> k then b * 2 ^ nat k \<le> a else b \<le> a * 2 ^ nat (- k)) then k else k - 1)"

definition double_of_ratio :: "int \<Rightarrow> int \<Rightarrow> int \<times> int" where
  "double_of_ratio a b =
     (let e = max (ilog2_ratio a b - 52) (- 1074) in
      (if 0 \<le> e then rne_div a (b * 2 ^ nat e) else rne_div (a * 2 ^ nat (- e)) b, e))"

definition signed_double :: "bool \<Rightarrow> int \<times> int \<Rightarrow> pyfloat" where
  "signed_double neg me =
     (case me of (m, e) \<Rightarrow>
        if m = 0 then (if neg then NegZero else Finite 0 0)
        else Finite (if neg then - m else m) e)"

text \<open>\<^verbatim>\<open>i / n\<close> for integers, \<open>n > 0\<close>: CPython raises when the quotient exceeds the doubles.\<close>

definition int_truediv :: "int \<Rightarrow> int \<Rightarrow> exn + pyfloat" where
  "int_truediv i n =
     (if i = 0 then Inr (Finite 0 0)
      else
        (case double_of_ratio \<bar>i\<bar> n of (m, e) \<Rightarrow>
           if 971 < e \<or> (e = 971 \<and> 2 ^ 53 \<le> m)
           then Inl (OverflowError (ascii ''integer division result too large for a float''))
           else Inr (signed_double (i < 0) (m, e))))"

text \<open>\<^verbatim>\<open>f / n\<close> for a float and an integer \<open>n > 0\<close> that a double holds exactly.\<close>

fun float_div_int :: "pyfloat \<Rightarrow> int \<Rightarrow> pyfloat" where
  "float_div_int (Finite m e) n =
     (if m = 0 then Finite 0 0
      else signed_double (m < 0)
             (double_of_ratio (\<bar>m\<bar> * 2 ^ nat (max e 0)) (n * 2 ^ nat (max (- e) 0))))"
| "float_div_int NegZero n = NegZero"
| "float_div_int PosInf n = PosInf"
| "float_div_int NegInf n = NegInf"
| "float_div_int NaN n = NaN"

definition operand_error :: "string \<Rightarrow> pyval \<Rightarrow> exn" where
  "operand_error op v =
     (if op = ''/''
      then TypeError (ascii ''unsupported operand type(s) for /: '' @ [39] @ type_name v @ [39]
                      @ ascii '' and '' @ [39] @ ascii ''int'' @ [39])
      else TypeError ([39] @ ascii op @ [39] @ ascii '' not supported between instances of ''
                      @ [39] @ type_name v @ [39] @ ascii '' and '' @ [39] @ ascii ''int''
                      @ [39]))"

text \<open>\<^verbatim>\<open>v / n\<close>: \<^verbatim>\<open>bool\<close> is a subclass of \<^verbatim>\<open>int\<close>.\<close>

fun py_truediv_int :: "pyval \<Rightarrow> int \<Rightarrow> exn + pyfloat" where
  "py_truediv_int (PInt i) n = int_truediv i n"
| "py_truediv_int (PBool b) n = int_truediv (if b then 1 else 0) n"
| "py_truediv_int (PFloat f) n = Inr (float_div_int f n)"
| "py_truediv_int v n = Inl (operand_error ''/'' v)"

text \<open>\<^verbatim>\<open>v >= n\<close> for an integer \<open>n\<close>: exact for floats, false for a NaN.\<close>

fun float_ge_int :: "pyfloat \<Rightarrow> int \<Rightarrow> bool" where
  "float_ge_int (Finite m e) n =
     (if 0 \<le> e then n \<le> m * 2 ^ nat e else n * 2 ^ nat (- e) \<le> m)"
| "float_ge_int NegZero n = (n \<le> 0)"
| "float_ge_int PosInf n = True"
| "float_ge_int NegInf n = False"
| "float_ge_int NaN n = False"

fun py_ge_int :: "pyval \<Rightarrow> int \<Rightarrow> exn + bool" where
  "py_ge_int (PInt i) n = Inr (n \<le> i)"
| "py_ge_int (PBool b) n = Inr (n \<le> (if b then 1 else 0))"
| "py_ge_int (PFloat f) n = Inr (float_ge_int f n)"
| "py_ge_int v n = Inl (operand_error ''>='' v)"

text \<open>\<^verbatim>\<open>f"{x:.2f}"\<close> for a float.\<close>

definition two_digits :: "nat \<Rightarrow> pystr" where
  "two_digits k = [48 + k div 10, 48 + k mod 10]"

fun float_fmt2 :: "pyfloat \<Rightarrow> pystr" where
  "float_fmt2 (Finite m e) =
     (let N = nat (if 0 \<le> e then \<bar>m\<bar> * 2 ^ nat e * 100
                   else rne_div (\<bar>m\<bar> * 100) (2 ^ nat (- e)))
      in (if m < 0 then [45] else []) @ str_nat (N div 100) @ [46] @ two_digits (N mod 100))"
| "float_fmt2 NegZero = ascii ''-0.00''"
| "float_fmt2 PosInf = ascii ''inf''"
| "float_fmt2 NegInf = ascii ''-inf''"
| "float_fmt2 NaN = ascii ''nan''"

text \<open>
  The chain of lines 105 to 110, which the source repeats at lines 522 to 527 and 537 to
  542: the scaled text of a quota.
\<close>

definition quota_str :: "(pyval \<Rightarrow> pystr) \<Rightarrow> pyval \<Rightarrow> exn + pystr" where
  "quota_str rp quota =
     (case py_ge_int quota 1000000 of
        Inl e \<Rightarrow> Inl e
      | Inr True \<Rightarrow>
          (case py_truediv_int quota 1000000 of
             Inl e \<Rightarrow> Inl e
           | Inr x \<Rightarrow> Inr (float_fmt2 x @ ascii ''M''))
      | Inr False \<Rightarrow>
          (case py_ge_int quota 1000 of
             Inl e \<Rightarrow> Inl e
           | Inr True \<Rightarrow>
               (case py_truediv_int quota 1000 of
                  Inl e \<Rightarrow> Inl e
                | Inr x \<Rightarrow> Inr (float_fmt2 x @ ascii ''K''))
           | Inr False \<Rightarrow> Inr (py_str rp quota)))"

subsection \<open>The message\<close>

text \<open>
  The dict \<^verbatim>\<open>main\<close> collects per account and hands to the formatter. All five keys are
  always present, so the defaults of the formatter's \<^verbatim>\<open>get\<close> calls are never used;
  \<^verbatim>\<open>success\<close> is always a \<^verbatim>\<open>bool\<close>.
\<close>

record account_result =
  r_name :: pyval
  r_success :: bool
  r_message :: pyval
  r_quota_awarded :: pyval
  r_checkin_count :: pyval

text \<open>\<^verbatim>\<open>len(v)\<close>; a dict counts its keys.\<close>

fun py_len :: "pyval \<Rightarrow> exn + nat" where
  "py_len (PStr s) = Inr (length s)"
| "py_len (PList xs) = Inr (length xs)"
| "py_len (PDict kvs) = Inr (length (remdups (map fst kvs)))"
| "py_len v =
     Inl (TypeError (ascii ''object of type '' @ [39] @ type_name v @ [39] @ ascii '' has no len()''))"

text \<open>
  \<^verbatim>\<open>msg[:47] + "..."\<close>, reached only for a value that has a length: a list cannot be
  joined to a \<^verbatim>\<open>str\<close> and a dict cannot be sliced (the texts are those of CPython 3.11).
\<close>

fun truncate_msg :: "pyval \<Rightarrow> exn + pyval" where
  "truncate_msg (PStr s) = Inr (PStr (take 47 s @ ascii ''...''))"
| "truncate_msg (PList xs) =
     Inl (TypeError (ascii ''can only concatenate list (not '' @ [34] @ ascii ''str'' @ [34]
                     @ ascii '') to list''))"
| "truncate_msg (PDict kvs) = Inl (TypeError (ascii ''unhashable type: '' @ [39] @ ascii ''slice'' @ [39]))"
| "truncate_msg v =
     Inl (TypeError ([39] @ type_name v @ [39] @ ascii '' object is not subscriptable''))"

definition emoji_ok :: pystr where
  \<comment> \<open>white heavy check mark\<close>
  "emoji_ok = [0x2705]"

definition emoji_fail :: pystr where
  \<comment> \<open>cross mark\<close>
  "emoji_fail = [0x274C]"

definition emoji_warn :: pystr where
  \<comment> \<open>warning sign with its variation selector\<close>
  "emoji_warn = [0x26A0, 0xFE0F]"

definition txt_signed_this_month :: pystr where
  \<comment> \<open>" signed in this month for"\<close>
  "txt_signed_this_month = [0x20, 0x672C, 0x6708, 0x5DF2, 0x7B7E]"

definition txt_days :: pystr where
  \<comment> \<open>"days"\<close>
  "txt_days = [0x5929]"

text \<open>
  The line of a successful account (lines 97 to 115). The quota suffix is the text
  \<^verbatim>\<open> \(+...\)\<close>: code point 92 is the backslash.
\<close>

definition success_line :: "(pyval \<Rightarrow> pystr) \<Rightarrow> account_result \<Rightarrow> exn + pystr" where
  "success_line rp result =
     (let line = emoji_ok @ ascii '' *'' @ py_str rp (r_name result) @ ascii ''*: ''
                 @ py_str rp (r_message result);
          quota = r_quota_awarded result;
          checkin_count = r_checkin_count result;
          count_part = (if checkin_count \<noteq> PNone
                        then txt_signed_this_month @ py_str rp checkin_count @ txt_days else [])
      in if truthy quota then
           (case quota_str rp quota of
              Inl e \<Rightarrow> Inl e
            | Inr qs \<Rightarrow> Inr (line @ ascii '' '' @ [92] @ ascii ''(+'' @ qs @ [92] @ ascii '')''
                              @ count_part))
         else Inr (line @ count_part))"

text \<open>The line of a failed account (lines 118 to 123); code point 96 is the backquote.\<close>

definition failure_line :: "(pyval \<Rightarrow> pystr) \<Rightarrow> account_result \<Rightarrow> exn + pystr" where
  "failure_line rp result =
     (case py_len (r_message result) of
        Inl e \<Rightarrow> Inl e
      | Inr n \<Rightarrow>
          (case (if 50 < n then truncate_msg (r_message result) else Inr (r_message result)) of
             Inl e \<Rightarrow> Inl e
           | Inr msg \<Rightarrow>
               Inr (emoji_fail @ ascii '' *'' @ py_str rp (r_name result) @ ascii ''*: '' @ [96]
                    @ py_str rp msg @ [96])))"

definition account_line :: "(pyval \<Rightarrow> pystr) \<Rightarrow> account_result \<Rightarrow> exn + pystr" where
  "account_line rp result =
     (if r_success result then success_line rp result else failure_line rp result)"

fun account_lines :: "(pyval \<Rightarrow> pystr) \<Rightarrow> account_result list \<Rightarrow> pystr list \<Rightarrow> exn + pystr list"
where
  "account_lines rp [] lines = Inr lines"
| "account_lines rp (result # results) lines =
     (case account_line rp result of
        Inl e \<Rightarrow> Inl e
      | Inr line \<Rightarrow> account_lines rp results (lines @ [line]))"

text \<open>\<^verbatim>\<open>'\n'.join(lines)\<close>.\<close>

fun join_lines :: "pystr list \<Rightarrow> pystr" where
  "join_lines [] = []"
| "join_lines [l] = l"
| "join_lines (l # ls) = l @ [10] @ join_lines ls"

definition txt_all_ok :: pystr where
  \<comment> \<open>"all succeeded"\<close>
  "txt_all_ok = [0x5168, 0x90E8, 0x6210, 0x529F]"

definition txt_all_failed :: pystr where
  \<comment> \<open>"all failed"\<close>
  "txt_all_failed = [0x5168, 0x90E8, 0x5931, 0x8D25]"

definition txt_partly_ok :: pystr where
  \<comment> \<open>"partly succeeded"\<close>
  "txt_partly_ok = [0x90E8, 0x5206, 0x6210, 0x529F]"

definition txt_report :: pystr where
  \<comment> \<open>" *NewAPI check-in report*"\<close>
  "txt_report = [0x20, 0x2A, 0x4E, 0x65, 0x77, 0x41, 0x50, 0x49, 0x20, 0x7B7E, 0x5230, 0x62A5,
     0x544A, 0x2A]"

definition txt_time :: pystr where
  \<comment> \<open>alarm clock, " run time: `"\<close>
  "txt_time = [0x23F0, 0x20, 0x6267, 0x884C, 0x65F6, 0x95F4, 0x3A, 0x20, 0x60]"

definition txt_total :: pystr where
  \<comment> \<open>bar chart, " total: "\<close>
  "txt_total = [0x1F4CA, 0x20, 0x603B, 0x8BA1, 0x3A, 0x20]"

definition txt_accounts_ok :: pystr where
  \<comment> \<open>" accounts | succeeded "\<close>
  "txt_accounts_ok = [0x20, 0x4E2A, 0x8D26, 0x53F7, 0x20, 0x7C, 0x20, 0x6210, 0x529F, 0x20]"

definition txt_failed :: pystr where
  \<comment> \<open>" | failed "\<close>
  "txt_failed = [0x20, 0x7C, 0x20, 0x5931, 0x8D25, 0x20]"

definition format_telegram_message ::
  "(pyval \<Rightarrow> pystr) \<Rightarrow> account_result list \<Rightarrow> pystr \<Rightarrow> nat \<Rightarrow> exn + pystr"
where
  "format_telegram_message rp results execution_time total_accounts =
     (let success_count = length (filter r_success results);
          fail_count = length results - success_count;
          status_emoji = (if fail_count = 0 then emoji_ok
                          else if success_count = 0 then emoji_fail else emoji_warn);
          status_text = (if fail_count = 0 then txt_all_ok
                         else if success_count = 0 then txt_all_failed else txt_partly_ok);
          lines = [status_emoji @ txt_report,
                   [],
                   txt_time @ execution_time @ [96],
                   txt_total @ str_nat total_accounts @ txt_accounts_ok @ str_nat success_count
                     @ txt_failed @ str_nat fail_count,
                   []]
      in case account_lines rp results lines of
           Inl e \<Rightarrow> Inl e
         | Inr lines' \<Rightarrow>
             Inr (join_lines (lines' @ [[], 35 # map (\<lambda>c. if c = 32 then 95 else c) status_text])))"

text \<open>
  \<^verbatim>\<open>isinstance(v, (int, float))\<close>: the values the comparison and the division of the quota
  chain accept. \<^verbatim>\<open>bool\<close> is a subclass of \<^verbatim>\<open>int\<close> in Python, so \<^verbatim>\<open>True\<close> and \<^verbatim>\<open>False\<close> are
  numbers.
\<close>

fun py_is_number :: "pyval \<Rightarrow> bool" where
  "py_is_number (PInt i) = True"
| "py_is_number (PFloat f) = True"
| "py_is_number (PBool b) = True"
| "py_is_number v = False"

section \<open>The session client: construction, profile and history\<close>

text \<open>
  The standard-library functions the program calls are parameters of the model, collected
  in one record: \<^verbatim>\<open>json.loads\<close>; \<^verbatim>\<open>repr\<close> of a float, list or dict; \<^verbatim>\<open>base64.b64decode\<close>
  (the bytes, or the text of the \<^verbatim>\<open>binascii.Error\<close> or \<^verbatim>\<open>ValueError\<close> it raises);
  \<^verbatim>\<open>bytes.decode('utf-8', errors='ignore')\<close>; and \<^verbatim>\<open>re.search(pattern, s, re.IGNORECASE)\<close>
  followed by \<^verbatim>\<open>group(1)\<close> (\<open>None\<close> when there is no match).
\<close>

record pylib =
  lib_loads :: "pystr \<Rightarrow> json_outcome"
  lib_repr :: "pyval \<Rightarrow> pystr"
  lib_b64decode :: "pystr \<Rightarrow> pystr + nat list"
  lib_decode_ignore :: "nat list \<Rightarrow> pystr"
  lib_search_group1 :: "pystr \<Rightarrow> pystr \<Rightarrow> pystr option"

subsection \<open>\<^verbatim>\<open>_extract_user_id_from_session\<close>\<close>

text \<open>The four patterns, in the order of the source (code point 92 is the backslash, 34
  the double quote).\<close>

definition patterns :: "pystr list" where
  "patterns =
     [ascii ''linuxdo[_-]('' @ [92] @ ascii ''d+)'',
      [34] @ ascii ''id'' @ [34] @ ascii ''[:'' @ [92] @ ascii ''s]+('' @ [92] @ ascii ''d+)'',
      ascii ''user[_-]('' @ [92] @ ascii ''d+)'',
      ascii ''userid[:'' @ [92] @ ascii ''s]+('' @ [92] @ ascii ''d+)'']"

text \<open>The loop over the patterns: the first pattern, in list order, that matches decides.\<close>

fun first_match :: "(pystr \<Rightarrow> pystr \<Rightarrow> pystr option) \<Rightarrow> pystr list \<Rightarrow> pystr \<Rightarrow> pystr option"
where
  "first_match search [] s = None"
| "first_match search (p # ps) s =
     (case search p s of
        Some g \<Rightarrow> Some g
      | None \<Rightarrow> first_match search ps s)"

text \<open>\<^verbatim>\<open>v + '=='\<close> for a value that is not a \<^verbatim>\<open>str\<close>.\<close>

fun concat_error :: "pyval \<Rightarrow> exn" where
  "concat_error (PList xs) =
     TypeError (ascii ''can only concatenate list (not '' @ [34] @ ascii ''str'' @ [34]
                @ ascii '') to list'')"
| "concat_error v =
     TypeError (ascii ''unsupported operand type(s) for +: '' @ [39] @ type_name v @ [39]
                @ ascii '' and '' @ [39] @ ascii ''str'' @ [39])"

text \<open>The body of the \<^verbatim>\<open>try\<close> (lines 216 to 233): what it returns, or what it raises.\<close>

definition extract_body :: "pylib \<Rightarrow> pyval \<Rightarrow> exn + pystr option" where
  "extract_body lib session_cookie =
     (case session_cookie of
        PStr s \<Rightarrow>
          (case lib_b64decode lib (s @ ascii ''=='') of
             Inl t \<Rightarrow> Inl (OtherError t)
           | Inr decoded \<Rightarrow>
               Inr (first_match (lib_search_group1 lib) patterns (lib_decode_ignore lib decoded)))
      | v \<Rightarrow> Inl (concat_error v))"

text \<open>
  The whole method: \<^verbatim>\<open>except Exception: pass\<close>, then \<^verbatim>\<open>return None\<close>. The result type
  keeps a place for an exception that the handler would let through.
\<close>

definition extract_user_id_from_session :: "pylib \<Rightarrow> pyval \<Rightarrow> exn + pyval" where
  "extract_user_id_from_session lib session_cookie =
     (case extract_body lib session_cookie of
        Inr (Some g) \<Rightarrow> Inr (PStr g)
      | Inr None \<Rightarrow> Inr PNone
      | Inl e \<Rightarrow> if is_Exception e then Inr PNone else Inl e)"

subsection \<open>\<^verbatim>\<open>__init__\<close>\<close>

text \<open>
  Of the client's state the model keeps the base URL and the resolved user id. The cookie
  jar and the headers only influence what the remote service answers, which the model
  takes as given; the calls into \<^verbatim>\<open>requests\<close> that fill them do not raise. The
  constructor raises when \<^verbatim>\<open>base_url\<close> is not a \<^verbatim>\<open>str\<close> (code point 47 is the slash).
\<close>

record client =
  base_url :: pystr
  user_id :: pyval

definition client_init :: "pylib \<Rightarrow> pyval \<Rightarrow> pyval \<Rightarrow> pyval \<Rightarrow> exn + client" where
  "client_init lib url session_cookie uid =
     (case url of
        PStr u \<Rightarrow>
          (if truthy uid then Inr \<lparr>base_url = rev (dropWhile (\<lambda>c. c = 47) (rev u)), user_id = uid\<rparr>
           else
             (case extract_user_id_from_session lib session_cookie of
                Inl e \<Rightarrow> Inl e
              | Inr derived \<Rightarrow>
                  Inr \<lparr>base_url = rev (dropWhile (\<lambda>c. c = 47) (rev u)), user_id = derived\<rparr>))
      | v \<Rightarrow> Inl (attribute_error v ''rstrip''))"

subsection \<open>\<^verbatim>\<open>get_user_info\<close>\<close>

text \<open>\<^verbatim>\<open>'id' in v\<close>: a key of a dict, a substring of a \<^verbatim>\<open>str\<close>, an element of a list.\<close>

fun contains_id :: "pyval \<Rightarrow> exn + bool" where
  "contains_id (PDict kvs) = Inr (map_of kvs (ascii ''id'') \<noteq> None)"
| "contains_id (PStr s) = Inr (sublist (ascii ''id'') s)"
| "contains_id (PList xs) = Inr (PStr (ascii ''id'') \<in> set xs)"
| "contains_id v =
     Inl (TypeError (ascii ''argument of type '' @ [39] @ type_name v @ [39]
                     @ ascii '' is not iterable''))"

text \<open>\<^verbatim>\<open>v['id']\<close>, reached only where \<^verbatim>\<open>'id' in v\<close> holds.\<close>

fun index_id :: "pyval \<Rightarrow> exn + pyval" where
  "index_id (PDict kvs) =
     (case map_of kvs (ascii ''id'') of
        Some x \<Rightarrow> Inr x
      | None \<Rightarrow> Inl (OtherError ([39] @ ascii ''id'' @ [39])))"
| "index_id (PStr s) =
     Inl (TypeError (ascii ''string indices must be integers, not '' @ [39] @ ascii ''str'' @ [39]))"
| "index_id (PList xs) =
     Inl (TypeError (ascii ''list indices must be integers or slices, not str''))"
| "index_id v = Inl (TypeError ([39] @ type_name v @ [39] @ ascii '' object is not subscriptable''))"

text \<open>
  The body of the \<^verbatim>\<open>try\<close> after the response has been decoded (lines 276 to 292), with
  \<^verbatim>\<open>verbose\<close> false: the value returned and the client, or the exception raised.
\<close>

definition user_info_body :: "client \<Rightarrow> response \<Rightarrow> pyval \<Rightarrow> exn + client \<times> pyval" where
  "user_info_body c resp data =
     (if status_code resp = 200 then
        (case py_get data (ascii ''success'') PNone of
           Inl e \<Rightarrow> Inl e
         | Inr s \<Rightarrow>
             if truthy s then
               (case py_get data (ascii ''data'') PNone of
                  Inl e \<Rightarrow> Inl e
                | Inr user_data \<Rightarrow>
                    if truthy user_data then
                      (case contains_id user_data of
                         Inl e \<Rightarrow> Inl e
                       | Inr True \<Rightarrow>
                           (case index_id user_data of
                              Inl e \<Rightarrow> Inl e
                            | Inr x \<Rightarrow> Inr (c\<lparr>user_id := x\<rparr>, user_data))
                       | Inr False \<Rightarrow> Inr (c, user_data))
                    else Inr (c, user_data))
             else Inr (c, PNone))
      else
        (case py_get data (ascii ''message'') (PStr msg_unknown_error) of
           Inl e \<Rightarrow> Inl e
         | Inr m \<Rightarrow> Inr (c, PNone)))"

text \<open>
  \<^verbatim>\<open>get_user_info\<close> on the outcome of \<^verbatim>\<open>GET /api/user/self\<close>: every exception is caught
  and gives \<^verbatim>\<open>None\<close>. An exception raised after the user id was stored cannot occur:
  storing it is the last step that can raise.
\<close>

definition get_user_info :: "client \<Rightarrow> http_result \<Rightarrow> client \<times> pyval" where
  "get_user_info c r =
     (case r of
        Response resp \<Rightarrow>
          (if status_code resp = 401 then (c, PNone)
           else
             (case json resp of
                Parsed data \<Rightarrow>
                  (case user_info_body c resp data of
                     Inl e \<Rightarrow> (c, PNone)
                   | Inr cu \<Rightarrow> cu)
              | _ \<Rightarrow> (c, PNone)))
      | _ \<Rightarrow> (c, PNone))"

subsection \<open>\<^verbatim>\<open>get_checkin_history\<close>\<close>

text \<open>On the outcome of \<^verbatim>\<open>GET /api/user/checkin?month=...\<close>; every exception gives
  \<^verbatim>\<open>None\<close>.\<close>

definition get_checkin_history :: "http_result \<Rightarrow> pyval" where
  "get_checkin_history r =
     (case r of
        Response resp \<Rightarrow>
          (if status_code resp = 200 then
             (case json resp of
                Parsed data \<Rightarrow>
                  (case py_get data (ascii ''success'') PNone of
                     Inl e \<Rightarrow> PNone
                   | Inr s \<Rightarrow>
                       if truthy s then
                         (case py_get data (ascii ''data'') PNone of
                            Inl e \<Rightarrow> PNone
                          | Inr d \<Rightarrow> d)
                       else PNone)
              | _ \<Rightarrow> PNone)
           else PNone)
      | _ \<Rightarrow> PNone)"

text \<open>
  A stand-in library for the worked examples, with fixed outcomes: each example names the
  outcomes Python gives on its input. \<open>table\<close> lists, per pattern, the first group of its
  match in the decoded text.
\<close>

definition lib_fixed ::
  "json_outcome \<Rightarrow> pystr + nat list \<Rightarrow> pystr \<Rightarrow> (pystr \<times> pystr) list \<Rightarrow> pylib" where
  "lib_fixed loaded decoded txt table =
     \<lparr>lib_loads = loads_const loaded, lib_repr = repr_unused,
      lib_b64decode = (\<lambda>s. decoded), lib_decode_ignore = (\<lambda>b. txt),
      lib_search_group1 = (\<lambda>p s. map_of table p)\<rparr>"

section \<open>The run driver: \<^verbatim>\<open>main\<close>\<close>

text \<open>
  Console output is not modelled, except that a printed expression whose evaluation can
  raise is evaluated. The remote service is an oracle: what the request of account number
  \<open>i\<close> to an endpoint is answered with. Every request the program makes is recorded, in
  order.
\<close>

datatype endpoint = UserSelf | Checkin | CheckinHistory

datatype call = ApiCall nat endpoint | TelegramSend | DingtalkSend

definition txt_account :: pystr where
  \<comment> \<open>"account", the positional label\<close>
  "txt_account = [0x8D26, 0x53F7]"

definition txt_unknown :: pystr where
  \<comment> \<open>"unknown"\<close>
  "txt_unknown = [0x672A, 0x77E5]"

text \<open>\<^verbatim>\<open>v[:k] + end_text\<close> for a value that has a length (texts of CPython 3.11).\<close>

fun slice_plus :: "nat \<Rightarrow> pystr \<Rightarrow> pyval \<Rightarrow> exn + pystr" where
  "slice_plus k end_text (PStr s) = Inr (take k s @ end_text)"
| "slice_plus k end_text (PList xs) =
     Inl (TypeError (ascii ''can only concatenate list (not '' @ [34] @ ascii ''str'' @ [34]
                     @ ascii '') to list''))"
| "slice_plus k end_text (PDict kvs) =
     Inl (TypeError (ascii ''unhashable type: '' @ [39] @ ascii ''slice'' @ [39]))"
| "slice_plus k end_text v =
     Inl (TypeError ([39] @ type_name v @ [39] @ ascii '' object is not subscriptable''))"

text \<open>Lines 491 to 493, run when the profile is truthy: the masked user name.\<close>

definition masked_username :: "pyval \<Rightarrow> exn + pystr" where
  "masked_username user_info =
     (case py_get user_info (ascii ''username'') (PStr txt_unknown) of
        Inl e \<Rightarrow> Inl e
      | Inr username \<Rightarrow>
          (case py_len username of
             Inl e \<Rightarrow> Inl e
           | Inr n \<Rightarrow> if 3 < n then slice_plus 3 (ascii ''***'') username else Inr (ascii ''***'')))"

text \<open>Lines 519 to 528: the quota is scaled for printing when it is truthy.\<close>

definition print_quota :: "(pyval \<Rightarrow> pystr) \<Rightarrow> pyval \<Rightarrow> exn option" where
  "print_quota rp quota =
     (if truthy quota then
        (case quota_str rp quota of Inl e \<Rightarrow> Some e | Inr qs \<Rightarrow> None)
      else None)"

text \<open>Lines 532 to 543: the monthly count read from the history, 0 when there is none.\<close>

definition history_count :: "(pyval \<Rightarrow> pystr) \<Rightarrow> pyval \<Rightarrow> exn + pyval" where
  "history_count rp history =
     (if truthy history then
        (case py_get history (ascii ''stats'') PNone of
           Inl e \<Rightarrow> Inl e
         | Inr stats \<Rightarrow>
             if truthy stats then
               (case py_get stats (ascii ''checkin_count'') (PInt 0) of
                  Inl e \<Rightarrow> Inl e
                | Inr checkin_count \<Rightarrow>
                    (case py_get stats (ascii ''total_quota'') (PInt 0) of
                       Inl e \<Rightarrow> Inl e
                     | Inr total_quota \<Rightarrow>
                         (case quota_str rp total_quota of
                            Inl e \<Rightarrow> Inl e
                          | Inr total_str \<Rightarrow> Inr checkin_count)))
             else Inr (PInt 0))
      else Inr (PInt 0))"

text \<open>
  The body of the loop (lines 475 to 556) for account number \<open>i\<close>: the requests made and
  the outcome collected, or the exception that leaves the loop. The bypass cookie has no
  effect in the model.
\<close>

definition process_account ::
  "pylib \<Rightarrow> (nat \<Rightarrow> endpoint \<Rightarrow> http_result) \<Rightarrow> nat \<Rightarrow> account \<Rightarrow> call list \<times> (exn + account_result)"
where
  "process_account lib remote i acct =
     (let name = (if truthy (acc_name acct) then acc_name acct
                  else PStr (txt_account @ str_nat i));
          uid = (case acc_user_id acct of None \<Rightarrow> PNone | Some v \<Rightarrow> v)
      in case client_init lib (acc_url acct) (acc_session acct) uid of
           Inl e \<Rightarrow> ([], Inl e)
         | Inr c \<Rightarrow>
             (case get_user_info c (remote i UserSelf) of
                (c', user_info) \<Rightarrow>
                  (case (if truthy user_info then masked_username user_info else Inr []) of
                     Inl e \<Rightarrow> ([ApiCall i UserSelf], Inl e)
                   | Inr shown \<Rightarrow>
                       (let result = checkin (lib_repr lib) (remote i Checkin) in
                        if success result then
                          (case print_quota (lib_repr lib) (quota_awarded result) of
                             Some e \<Rightarrow> ([ApiCall i UserSelf, ApiCall i Checkin], Inl e)
                           | None \<Rightarrow>
                               (case history_count (lib_repr lib)
                                       (get_checkin_history (remote i CheckinHistory)) of
                                  Inl e \<Rightarrow>
                                    ([ApiCall i UserSelf, ApiCall i Checkin,
                                      ApiCall i CheckinHistory], Inl e)
                                | Inr checkin_count \<Rightarrow>
                                    ([ApiCall i UserSelf, ApiCall i Checkin,
                                      ApiCall i CheckinHistory],
                                     Inr \<lparr>r_name = name, r_success = True,
                                          r_message = message result,
                                          r_quota_awarded = quota_awarded result,
                                          r_checkin_count = checkin_count\<rparr>)))
                        else
                          ([ApiCall i UserSelf, ApiCall i Checkin],
                           Inr \<lparr>r_name = name, r_success = False, r_message = message result,
                                r_quota_awarded = PNone, r_checkin_count = PNone\<rparr>)))))"

text \<open>The loop with its counters and its list of outcomes.\<close>

record run_state =
  success_count :: nat
  fail_count :: nat
  checkin_results :: "account_result list"
  calls :: "call list"

fun run_accounts ::
  "pylib \<Rightarrow> (nat \<Rightarrow> endpoint \<Rightarrow> http_result) \<Rightarrow> nat \<Rightarrow> account list \<Rightarrow> run_state
     \<Rightarrow> exn option \<times> run_state"
where
  "run_accounts lib remote i [] st = (None, st)"
| "run_accounts lib remote i (acct # rest) st =
     (case process_account lib remote i acct of
        (cs, Inl e) \<Rightarrow> (Some e, st\<lparr>calls := calls st @ cs\<rparr>)
      | (cs, Inr r) \<Rightarrow>
          run_accounts lib remote (Suc i) rest
            (st\<lparr>success_count := (if r_success r then Suc (success_count st)
                                   else success_count st),
                fail_count := (if r_success r then fail_count st else Suc (fail_count st)),
                checkin_results := checkin_results st @ [r],
                calls := calls st @ cs\<rparr>))"

definition initial_state :: run_state where
  "initial_state = \<lparr>success_count = 0, fail_count = 0, checkin_results = [], calls = []\<rparr>"

text \<open>
  What a run is given: the three environment variables the model reads (\<open>None\<close> when
  unset), the remote service, the time stamp and the optional second notifier. The module
  \<^verbatim>\<open>dingtalk_notifier\<close> is not among the sources: \<open>None\<close> when its import fails, else the
  text of the exception (of class \<^verbatim>\<open>Exception\<close>) its function raises on the outcomes, if
  any.
\<close>

record world =
  env_accounts :: "pystr option"
  env_tg_token :: "pystr option"
  env_tg_chat :: "pystr option"
  remote :: "nat \<Rightarrow> endpoint \<Rightarrow> http_result"
  execution_time :: pystr
  dingtalk :: "(account_result list \<Rightarrow> pystr \<Rightarrow> pystr option) option"

text \<open>
  Lines 567 to 582. \<^verbatim>\<open>send_telegram_notification\<close> makes one request and catches every
  exception of it.
\<close>

definition notify :: "pylib \<Rightarrow> world \<Rightarrow> account_result list \<Rightarrow> nat \<Rightarrow> call list \<times> exn option" where
  "notify lib w results n =
     (let tg = (case (env_tg_token w, env_tg_chat w) of
                  (Some token, Some chat) \<Rightarrow> token \<noteq> [] \<and> chat \<noteq> []
                | _ \<Rightarrow> False)
      in case (if tg then format_telegram_message (lib_repr lib) results (execution_time w) n
               else Inr []) of
           Inl e \<Rightarrow> ([], Some e)
         | Inr text_sent \<Rightarrow>
             (case dingtalk w of
                None \<Rightarrow> (if tg then [TelegramSend] else [], None)
              | Some send \<Rightarrow>
                  ((if tg then [TelegramSend] else []) @ [DingtalkSend],
                   map_option OtherError (send results (execution_time w)))))"

text \<open>
  \<^verbatim>\<open>main\<close>: the requests made, and how it ends: normally (\<open>Inr ()\<close>), by \<^verbatim>\<open>sys.exit\<close>
  (\<open>SystemExit\<close>), or by an exception nothing catches.
\<close>

definition main :: "pylib \<Rightarrow> world \<Rightarrow> call list \<times> (exn + unit)" where
  "main lib w =
     (let accounts_str = (case env_accounts w of None \<Rightarrow> [] | Some s \<Rightarrow> s) in
      if accounts_str = [] then ([], Inl (SystemExit 1))
      else
        (case parse_accounts (lib_loads lib) accounts_str of
           Inl e \<Rightarrow> ([], Inl e)
         | Inr accounts \<Rightarrow>
             if accounts = [] then ([], Inl (SystemExit 1))
             else
               (case run_accounts lib (remote w) 1 accounts initial_state of
                  (Some e, st) \<Rightarrow> (calls st, Inl e)
                | (None, st) \<Rightarrow>
                    (case notify lib w (checkin_results st) (length accounts) of
                       (cs, Some e) \<Rightarrow> (calls st @ cs, Inl e)
                     | (cs, None) \<Rightarrow>
                         (calls st @ cs,
                          if fail_count st = length accounts then Inl (SystemExit 1)
                          else Inr ())))))"

text \<open>The exit status of the process: an uncaught exception ends it with status 1.\<close>

fun exit_status :: "exn + unit \<Rightarrow> int" where
  "exit_status (Inr u) = 0"
| "exit_status (Inl (SystemExit c)) = c"
| "exit_status (Inl e) = 1"

subsection \<open>A worked run\<close>

text \<open>
  Scenarios A and B of the specification as one run. The configuration is
  \<^verbatim>\<open>https://a.example#sess1,https://b.example#sess2\<close>, which is not JSON; for both tokens
  \<^verbatim>\<open>b64decode\<close> raises (five data characters). The first account's profile has user id
  42 and its check-in answers HTTP 200 with a quota of 150000; the second account's
  requests time out, except the check-in, which answers HTTP 401. No notifier is
  configured.
\<close>

definition demo_lib :: pylib where
  "demo_lib = lib_fixed JSONDecodeError (Inl (ascii ''Invalid base64-encoded string'')) [] []"

definition demo_remote :: "nat \<Rightarrow> endpoint \<Rightarrow> http_result" where
  "demo_remote i ep =
     (if i = 1 then
        (case ep of
           UserSelf \<Rightarrow>
             Response \<lparr>status_code = 200, resp_text = [],
               json = Parsed (PDict [(ascii ''success'', PBool True),
                 (ascii ''data'', PDict [(ascii ''id'', PInt 42),
                                         (ascii ''username'', PStr (ascii ''alice''))])])\<rparr>
         | Checkin \<Rightarrow>
             Response \<lparr>status_code = 200, resp_text = [],
               json = Parsed (PDict [(ascii ''success'', PBool True),
                 (ascii ''message'', PStr (ascii ''ok'')),
                 (ascii ''data'', PDict [(ascii ''checkin_date'', PStr (ascii ''2024-01-01'')),
                                         (ascii ''quota_awarded'', PInt 150000)])])\<rparr>
         | CheckinHistory \<Rightarrow>
             Response \<lparr>status_code = 200, resp_text = [],
               json = Parsed (PDict [(ascii ''success'', PBool True),
                 (ascii ''data'', PDict [(ascii ''stats'',
                    PDict [(ascii ''checkin_count'', PInt 1),
                           (ascii ''total_quota'', PInt 150000)])])])\<rparr>)
      else
        (case ep of
           Checkin \<Rightarrow> Response \<lparr>status_code = 401, resp_text = [], json = JSONDecodeError\<rparr>
         | _ \<Rightarrow> RaisesTimeout))"

definition demo_world :: "pystr \<Rightarrow> world" where
  "demo_world accounts_str =
     \<lparr>env_accounts = Some accounts_str, env_tg_token = None, env_tg_chat = None,
      remote = demo_remote, execution_time = ascii ''2024-01-01 08:00:00'', dingtalk = None\<rparr>"

definition demo_accounts :: "account list" where
  "demo_accounts =
     [\<lparr>acc_url = PStr (ascii ''https://a.example''), acc_session = PStr (ascii ''sess1''),
       acc_name = PStr [], acc_user_id = None, acc_cf_clearance = None\<rparr>,
      \<lparr>acc_url = PStr (ascii ''https://b.example''), acc_session = PStr (ascii ''sess2''),
       acc_name = PStr [], acc_user_id = None, acc_cf_clearance = None\<rparr>]"

definition demo_results :: "account_result list" where
  "demo_results =
     [\<lparr>r_name = PStr (txt_account @ ascii ''1''), r_success = True,
       r_message = PStr (ascii ''ok''), r_quota_awarded = PInt 150000,
       r_checkin_count = PInt 1\<rparr>,
      \<lparr>r_name = PStr (txt_account @ ascii ''2''), r_success = False,
       r_message = PStr msg_auth_failed, r_quota_awarded = PNone, r_checkin_count = PNone\<rparr>]"

definition demo_calls :: "call list" where
  "demo_calls = [ApiCall 1 UserSelf, ApiCall 1 Checkin, ApiCall 1 CheckinHistory,
                 ApiCall 2 UserSelf, ApiCall 2 Checkin]"

subsection \<open>A run that is cut short\<close>

text \<open>
  The same two accounts, both with a service on which the check-in succeeds as for the
  first account above, and with Telegram configured. The one difference: the profile
  request of the first account is answered, with HTTP 200, by
  \<^verbatim>\<open>{"success": true, "data": {"username": null}}\<close>.
\<close>

definition null_username_profile :: http_result where
  "null_username_profile =
     Response \<lparr>status_code = 200, resp_text = [],
       json = Parsed (PDict [(ascii ''success'', PBool True),
                             (ascii ''data'', PDict [(ascii ''username'', PNone)])])\<rparr>"

definition abort_remote :: "nat \<Rightarrow> endpoint \<Rightarrow> http_result" where
  "abort_remote i ep =
     (if i = 1 \<and> ep = UserSelf then null_username_profile else demo_remote 1 ep)"

definition abort_world :: world where
  "abort_world =
     \<lparr>env_accounts = Some (ascii ''https://a.example#sess1,https://b.example#sess2''),
      env_tg_token = Some (ascii ''token''), env_tg_chat = Some (ascii ''chat''),
      remote = abort_remote, execution_time = ascii ''2024-01-01 08:00:00'', dingtalk = None\<rparr>"

definition len_error :: exn where
  \<comment> \<open>what \<^verbatim>\<open>len(None)\<close> raises; code point 39 is the apostrophe\<close>
  "len_error = TypeError (ascii ''object of type '' @ [39] @ ascii ''NoneType'' @ [39]
                          @ ascii '' has no len()'')"

section \<open>Theorems\<close>

subsection \<open>Evaluation helpers\<close>

lemma ascii_Nil [simp]: "ascii [] = []"
  by (simp add: ascii_def)

lemma ascii_Cons [simp]: "ascii (c # cs) = of_char c # ascii cs"
  by (simp add: ascii_def)

lemma sublist_mid: "sublist xs (ps @ xs @ ss)"
  unfolding sublist_def by blast

subsection \<open>The check-in operation\<close>

text \<open>
  Claim C5. When the check-in response is not HTTP 401 and its body does not decode as
  JSON, the result is a failure (no date, no quota) whose message is the format-error
  text with the decimal status code and the first 200 characters of the body (a fixed
  placeholder when the body is empty); so the message contains both the truncated body
  and the status code.
\<close>

theorem checkin_non_json_body:
  assumes "json resp = JSONDecodeError" and "status_code resp \<noteq> 401"
  shows "success (checkin rp (Response resp)) = False
    \<and> checkin_date (checkin rp (Response resp)) = PNone
    \<and> quota_awarded (checkin rp (Response resp)) = PNone
    \<and> message (checkin rp (Response resp)) =
          PStr (msg_format_error @ str_int (status_code resp) @ ascii ''): '' @
                (if resp_text resp = [] then msg_empty_response
                 else take 200 (resp_text resp)))
    \<and> (\<exists>m. message (checkin rp (Response resp)) = PStr m
            \<and> sublist (take 200 (resp_text resp)) m
            \<and> sublist (str_int (status_code resp)) m)"
proof -
  let ?pre = "msg_format_error @ str_int (status_code resp) @ ascii ''): ''"
  let ?m = "?pre @ (if resp_text resp = [] then msg_empty_response
                    else take 200 (resp_text resp))"
  have res: "checkin rp (Response resp) =
      \<lparr>success = False, message = PStr ?m, checkin_date = PNone, quota_awarded = PNone\<rparr>"
    using assms by (simp add: checkin_def)
  have body: "sublist (take 200 (resp_text resp)) ?m"
  proof (cases "resp_text resp = []")
    case True
    then show ?thesis by simp
  next
    case False
    then show ?thesis
      using sublist_mid [of "take 200 (resp_text resp)" ?pre "[]"] by simp
  qed
  have code: "sublist (str_int (status_code resp)) ?m"
    using sublist_mid [of "str_int (status_code resp)" msg_format_error] by simp
  show ?thesis
    unfolding res using body code by simp
qed

text \<open>Scenario C of the specification: body "Service Unavailable" with HTTP 503.\<close>

theorem checkin_non_json_body_witness:
  "json \<lparr>status_code = 503, resp_text = ascii ''Service Unavailable'',
          json = JSONDecodeError\<rparr> = JSONDecodeError
   \<and> success (checkin (\<lambda>v. []) (Response \<lparr>status_code = 503,
          resp_text = ascii ''Service Unavailable'', json = JSONDecodeError\<rparr>)) = False
   \<and> message (checkin (\<lambda>v. []) (Response \<lparr>status_code = 503,
          resp_text = ascii ''Service Unavailable'', json = JSONDecodeError\<rparr>))
       = PStr (msg_format_error @ ascii ''503): Service Unavailable'')"
  using checkin_non_json_body [of "\<lparr>status_code = 503,
          resp_text = ascii ''Service Unavailable'', json = JSONDecodeError\<rparr>" "\<lambda>v. []"]
  by (simp add: str_int_def str_nat.simps)

text \<open>
  Claim C1, at the input where the code departs from it: HTTP 200 with the body
  \<^verbatim>\<open>{"success": true, "message": "ok", "data": null}\<close>. \<^verbatim>\<open>data.get('data', {})\<close> returns
  \<^verbatim>\<open>None\<close> (the default only replaces a missing key), \<^verbatim>\<open>None.get\<close> raises inside the
  \<^verbatim>\<open>try\<close> after \<^verbatim>\<open>success\<close> was set, and the last handler overwrites the message: the
  result reports success with the text "unknown error: 'NoneType' object has no
  attribute 'get'" in place of the response's message "ok".
\<close>

theorem checkin_null_data:
  "checkin rp (Response \<lparr>status_code = 200, resp_text = t,
        json = Parsed (PDict [(ascii ''success'', PBool True),
                              (ascii ''message'', PStr (ascii ''ok'')),
                              (ascii ''data'', PNone)])\<rparr>)
   = \<lparr>success = True,
      message = PStr (msg_unknown_error @ ascii '': '' @ [39] @ ascii ''NoneType'' @ [39]
                      @ ascii '' object has no attribute '' @ [39] @ ascii ''get'' @ [39]),
      checkin_date = PNone, quota_awarded = PNone\<rparr>"
  by (simp add: checkin_def checkin_body_def unknown_error_def attribute_error_def)

subsection \<open>The account parser\<close>


lemma json_accounts_eq: "json_accounts items acc = acc @ List.map_filter item_account items"
  by (induction items arbitrary: acc) (auto simp: List.map_filter_simps split: option.splits)

lemma simple_accounts_eq: "simple_accounts ps acc = acc @ concat (map part_accounts ps)"
  by (induction ps arbitrary: acc) (auto simp: part_accounts_def Let_def)

lemma split_on_no_sep: "sep \<notin> set u \<Longrightarrow> split_on sep u = [u]"
  by (induction u) auto

lemma split_on_append: "sep \<notin> set u \<Longrightarrow> split_on sep (u @ sep # v) = u # split_on sep v"
  by (induction u) auto

lemma split_on_not_Nil: "split_on sep s \<noteq> []"
  by (induction s) (auto split: list.splits)

lemma concat_split_on: "sep \<notin> set (concat (split_on sep s)) "
  by (induction s) (auto split: list.splits)


lemma strip_alt: "strip s = rstrip (lstrip s)"
  by (simp add: strip_def lstrip_def rstrip_def)

lemma hash_not_space [simp]: "\<not> py_isspace 35"
  by (simp add: py_isspace_def)

lemma rstrip_append: "rstrip (xs @ ys) = (if \<forall>y\<in>set ys. py_isspace y then rstrip xs else xs @ rstrip ys)"
  by (simp add: rstrip_def dropWhile_append)

lemma lstrip_append: "lstrip (xs @ ys) = (if \<forall>x\<in>set xs. py_isspace x then lstrip ys else lstrip xs @ ys)"
  by (simp add: lstrip_def dropWhile_append)

lemma lstrip_all: "\<forall>x\<in>set xs. py_isspace x \<Longrightarrow> lstrip xs = []"
  by (simp add: lstrip_def)

lemma rstrip_all: "\<forall>x\<in>set xs. py_isspace x \<Longrightarrow> rstrip xs = []"
  by (simp add: rstrip_def)

lemma lstrip_Cons_nonspace: "\<not> py_isspace x \<Longrightarrow> lstrip (x # xs) = x # xs"
  by (simp add: lstrip_def)

lemma rstrip_Cons: "rstrip (x # xs) = (if \<forall>y\<in>set (x # xs). py_isspace y then [] else x # rstrip xs)"
  using rstrip_append [of "[x]" xs] by (auto simp: rstrip_def)

lemma lstrip_rstrip_commute: "rstrip (lstrip s) = lstrip (rstrip s)"
proof (induction s)
  case Nil
  then show ?case by (simp add: lstrip_def rstrip_def)
next
  case (Cons x xs)
  show ?case
  proof (cases "py_isspace x")
    case True
    then have l: "lstrip (x # xs) = lstrip xs" by (simp add: lstrip_def)
    show ?thesis
    proof (cases "\<forall>y\<in>set xs. py_isspace y")
      case True
      with \<open>py_isspace x\<close> show ?thesis
        by (simp add: l lstrip_all rstrip_all rstrip_Cons)
    next
      case False
      then have "rstrip (x # xs) = x # rstrip xs" by (simp add: rstrip_Cons)
      with True Cons l show ?thesis by (simp add: lstrip_def)
    qed
  next
    case False
    then show ?thesis
      by (simp add: lstrip_Cons_nonspace rstrip_Cons)
  qed
qed

lemma lstrip_idem: "lstrip (lstrip s) = lstrip s"
  by (simp add: lstrip_def)

lemma rstrip_idem: "rstrip (rstrip s) = rstrip s"
  by (simp add: rstrip_def)

lemma strip_lstrip: "strip (lstrip s) = strip s"
  by (simp add: strip_alt lstrip_idem)

lemma strip_rstrip: "strip (rstrip s) = strip s"
  by (simp add: strip_alt lstrip_rstrip_commute [symmetric] rstrip_idem)

lemma strip_hash: "strip (u @ 35 # v) = lstrip u @ 35 # rstrip v"
proof -
  have "lstrip (u @ 35 # v) = lstrip u @ 35 # v"
    by (auto simp: lstrip_append lstrip_all lstrip_Cons_nonspace)
  moreover have "rstrip (lstrip u @ 35 # v) = lstrip u @ rstrip (35 # v)"
    by (simp add: rstrip_append)
  moreover have "rstrip (35 # v) = 35 # rstrip v"
    by (simp add: rstrip_Cons)
  ultimately show ?thesis by (simp add: strip_alt)
qed

lemma set_lstrip: "set (lstrip u) \<subseteq> set u"
  by (simp add: lstrip_def set_dropWhileD subsetI)

lemma set_strip: "set (strip u) \<subseteq> set u"
  unfolding strip_def by (metis set_dropWhileD set_rev subsetI)

lemma part_accounts_hash:
  assumes "35 \<notin> set u"
  shows "part_accounts (u @ 35 # v) =
     [\<lparr>acc_url = PStr (strip u), acc_session = PStr (strip v), acc_name = PStr [],
       acc_user_id = None, acc_cf_clearance = None\<rparr>]"
proof -
  have n: "35 \<notin> set (lstrip u)" using assms set_lstrip by blast
  have b: "before_hash (lstrip u @ 35 # rstrip v) = lstrip u"
    using n by (simp add: before_hash_def takeWhile_append)
  have a: "after_hash (lstrip u @ 35 # rstrip v) = rstrip v"
    using n by (simp add: after_hash_def dropWhile_append)
  show ?thesis
    by (simp add: part_accounts_def strip_hash simple_account_def a b strip_lstrip strip_rstrip)
qed

lemma part_accounts_no_hash: "35 \<notin> set p \<Longrightarrow> part_accounts p = []"
  using set_strip [of p] by (auto simp: part_accounts_def)

lemma parse_accounts_delimited:
  assumes "s \<noteq> []"
    and "loads s = JSONDecodeError \<or> (\<exists>v. loads s = Parsed v \<and> (\<forall>items. v \<noteq> PList items))"
  shows "parse_accounts loads s = Inr (delimited_accounts s)"
  using assms
  by (auto simp: parse_accounts_def delimited_accounts_def simple_accounts_eq
           split: json_outcome.splits pyval.splits)

lemma strip_id:
  assumes "u = [] \<or> (\<not> py_isspace (hd u) \<and> \<not> py_isspace (last u))"
  shows "strip u = u"
proof (cases u)
  case Nil
  then show ?thesis by (simp add: strip_def)
next
  case (Cons x xs)
  with assms have h: "\<not> py_isspace x" and l: "\<not> py_isspace (last u)" by auto
  from Cons h have d: "dropWhile py_isspace u = u" by simp
  from Cons have "rev u \<noteq> []" by simp
  then obtain y ys where r: "rev u = y # ys" by (cases "rev u") auto
  then have "y = last u" by (metis Cons hd_rev list.distinct(1) list.sel(1))
  with l have "dropWhile py_isspace (y # ys) = y # ys" by simp
  then have "dropWhile py_isspace (rev u) = rev u" by (simp only: r)
  then show ?thesis by (simp only: strip_def d rev_rev_ident)
qed

text \<open>
  Claim C3, amended. \<^verbatim>\<open>json.loads\<close> is tried first on every non-empty configuration
  string. When it returns a list, the accounts are read from the list's items alone. The
  comma-separated form is used when decoding raises \<^verbatim>\<open>JSONDecodeError\<close> and also when
  the text is valid JSON but not a list; any other exception of \<^verbatim>\<open>json.loads\<close> leaves
  the function.
\<close>

theorem parse_accounts_json_first:
  assumes "s \<noteq> []"
  shows "(\<forall>items. loads s = Parsed (PList items) \<longrightarrow>
            parse_accounts loads s = Inr (List.map_filter item_account items))
    \<and> (loads s = JSONDecodeError \<longrightarrow> parse_accounts loads s = Inr (delimited_accounts s))
    \<and> (\<forall>v. loads s = Parsed v \<longrightarrow> (\<forall>items. v \<noteq> PList items) \<longrightarrow>
            parse_accounts loads s = Inr (delimited_accounts s))
    \<and> (\<forall>t. loads s = JsonRaises t \<longrightarrow> parse_accounts loads s = Inl (OtherError t))"
proof -
  have "parse_accounts loads s = Inr (List.map_filter item_account items)"
    if "loads s = Parsed (PList items)" for items
    using that assms by (simp add: parse_accounts_def json_accounts_eq)
  moreover have "parse_accounts loads s = Inr (delimited_accounts s)"
    if "loads s = JSONDecodeError"
    using that assms parse_accounts_delimited by blast
  moreover have "parse_accounts loads s = Inr (delimited_accounts s)"
    if "loads s = Parsed v" and "\<forall>items. v \<noteq> PList items" for v
    using that assms parse_accounts_delimited by blast
  moreover have "parse_accounts loads s = Inl (OtherError t)" if "loads s = JsonRaises t" for t
    using that assms by (simp add: parse_accounts_def)
  ultimately show ?thesis by blast
qed

text \<open>
  The JSON text \<^verbatim>\<open>[{"url":"u","session":"s"}]\<close> (code point 34 is the double quote),
  which \<^verbatim>\<open>json.loads\<close> decodes to a list of one dict.
\<close>

theorem parse_accounts_json_first_witness:
  "ascii ''[{'' @ [34] @ ascii ''url'' @ [34] @ ascii '':'' @ [34] @ ascii ''u'' @ [34] @ ascii '',''
     @ [34] @ ascii ''session'' @ [34] @ ascii '':'' @ [34] @ ascii ''s'' @ [34] @ ascii ''}]'' \<noteq> []
   \<and> parse_accounts
       (loads_const (Parsed (PList [PDict [(ascii ''url'', PStr (ascii ''u'')),
                                            (ascii ''session'', PStr (ascii ''s''))]])))
       (ascii ''[{'' @ [34] @ ascii ''url'' @ [34] @ ascii '':'' @ [34] @ ascii ''u'' @ [34] @ ascii '',''
     @ [34] @ ascii ''session'' @ [34] @ ascii '':'' @ [34] @ ascii ''s'' @ [34] @ ascii ''}]'')
     = Inr [\<lparr>acc_url = PStr (ascii ''u''), acc_session = PStr (ascii ''s''), acc_name = PStr [],
             acc_user_id = None, acc_cf_clearance = None\<rparr>]"
  using parse_accounts_json_first [of
     "ascii ''[{'' @ [34] @ ascii ''url'' @ [34] @ ascii '':'' @ [34] @ ascii ''u'' @ [34] @ ascii '',''
     @ [34] @ ascii ''session'' @ [34] @ ascii '':'' @ [34] @ ascii ''s'' @ [34] @ ascii ''}]''"
     "loads_const (Parsed (PList [PDict [(ascii ''url'', PStr (ascii ''u'')),
                                          (ascii ''session'', PStr (ascii ''s''))]]))"]
  by (simp add: loads_const_def item_account_def List.map_filter_simps)

text \<open>
  Claim C3 as stated fails: the text \<^verbatim>\<open>"a#b"\<close>, quotes included, is valid JSON (a string,
  which \<^verbatim>\<open>json.loads\<close> decodes to \<^verbatim>\<open>a#b\<close>), and it is read under the comma-separated
  form, as the one account with URL \<^verbatim>\<open>"a\<close> and session \<^verbatim>\<open>b"\<close>.
\<close>

theorem parse_accounts_valid_json_delimited:
  "parse_accounts (loads_const (Parsed (PStr (ascii ''a#b'')))) ([34] @ ascii ''a#b'' @ [34])
     = Inr [\<lparr>acc_url = PStr ([34] @ ascii ''a''), acc_session = PStr (ascii ''b'' @ [34]),
             acc_name = PStr [], acc_user_id = None, acc_cf_clearance = None\<rparr>]"
  by (simp add: parse_accounts_def loads_const_def simple_account_def strip_def before_hash_def
        after_hash_def py_isspace_def)

text \<open>
  Claim C7, amended. For a configuration string \<open>U1#S1,U2#S2\<close> that \<^verbatim>\<open>json.loads\<close> does not
  decode to a list (no comma in the four components, no \<open>#\<close> in \<open>U1\<close> and \<open>U2\<close>), the
  parser returns two accounts, in order, with the empty name and no user id or bypass
  token; each URL and session is the component with the whitespace at its two ends
  removed. A session is everything after the first \<open>#\<close> of its part, further \<open>#\<close>
  included.
\<close>

theorem parse_accounts_two_pairs:
  assumes "44 \<notin> set u1 \<union> set s1 \<union> set u2 \<union> set s2"
    and "35 \<notin> set u1" and "35 \<notin> set u2"
    and "loads (u1 @ [35] @ s1 @ [44] @ u2 @ [35] @ s2) = JSONDecodeError
         \<or> (\<exists>v. loads (u1 @ [35] @ s1 @ [44] @ u2 @ [35] @ s2) = Parsed v
                \<and> (\<forall>items. v \<noteq> PList items))"
  shows "parse_accounts loads (u1 @ [35] @ s1 @ [44] @ u2 @ [35] @ s2) =
     Inr [\<lparr>acc_url = PStr (strip u1), acc_session = PStr (strip s1), acc_name = PStr [],
            acc_user_id = None, acc_cf_clearance = None\<rparr>,
          \<lparr>acc_url = PStr (strip u2), acc_session = PStr (strip s2), acc_name = PStr [],
            acc_user_id = None, acc_cf_clearance = None\<rparr>]"
proof -
  let ?s = "u1 @ [35] @ s1 @ [44] @ u2 @ [35] @ s2"
  have p1: "44 \<notin> set (u1 @ 35 # s1)" and p2: "44 \<notin> set (u2 @ 35 # s2)"
    using assms(1) by auto
  have "?s = (u1 @ 35 # s1) @ 44 # (u2 @ 35 # s2)" by simp
  then have "split_on 44 ?s = [u1 @ 35 # s1, u2 @ 35 # s2]"
    using split_on_append [OF p1, of "u2 @ 35 # s2"] split_on_no_sep [OF p2] by simp
  then have "delimited_accounts ?s = part_accounts (u1 @ 35 # s1) @ part_accounts (u2 @ 35 # s2)"
    by (simp add: delimited_accounts_def)
  moreover have "parse_accounts loads ?s = Inr (delimited_accounts ?s)"
    using parse_accounts_delimited [of ?s loads] assms(4) by simp
  ultimately show ?thesis
    using part_accounts_hash [OF assms(2), of s1] part_accounts_hash [OF assms(3), of s2]
    by simp
qed

text \<open>Two pairs, the first session holding a \<open>#\<close> of its own, the second URL padded.\<close>

theorem parse_accounts_two_pairs_witness:
  "parse_accounts (loads_const JSONDecodeError) (ascii ''https://a.example#tok#1, https://b.example#xyz'')
     = Inr [\<lparr>acc_url = PStr (ascii ''https://a.example''), acc_session = PStr (ascii ''tok#1''),
              acc_name = PStr [], acc_user_id = None, acc_cf_clearance = None\<rparr>,
            \<lparr>acc_url = PStr (ascii ''https://b.example''), acc_session = PStr (ascii ''xyz''),
              acc_name = PStr [], acc_user_id = None, acc_cf_clearance = None\<rparr>]"
  using parse_accounts_two_pairs [of "ascii ''https://a.example''" "ascii ''tok#1''"
      "ascii '' https://b.example''" "ascii ''xyz''" "loads_const JSONDecodeError"]
  by (simp add: loads_const_def strip_def py_isspace_def)

text \<open>
  Claim C7 as stated fails where a component carries whitespace at an end: for the string
  \<^verbatim>\<open> u#s,v#t\<close> (a leading space), the first URL returned is \<open>u\<close>, not the component
  \<^verbatim>\<open> u\<close>.
\<close>

theorem parse_accounts_two_pairs_counterexample:
  "parse_accounts (loads_const JSONDecodeError) (ascii '' u#s,v#t'')
     = Inr [\<lparr>acc_url = PStr (ascii ''u''), acc_session = PStr (ascii ''s''),
              acc_name = PStr [], acc_user_id = None, acc_cf_clearance = None\<rparr>,
            \<lparr>acc_url = PStr (ascii ''v''), acc_session = PStr (ascii ''t''),
              acc_name = PStr [], acc_user_id = None, acc_cf_clearance = None\<rparr>]
   \<and> parse_accounts (loads_const JSONDecodeError) (ascii '' u#s,v#t'')
     \<noteq> Inr [\<lparr>acc_url = PStr (ascii '' u''), acc_session = PStr (ascii ''s''),
              acc_name = PStr [], acc_user_id = None, acc_cf_clearance = None\<rparr>,
            \<lparr>acc_url = PStr (ascii ''v''), acc_session = PStr (ascii ''t''),
              acc_name = PStr [], acc_user_id = None, acc_cf_clearance = None\<rparr>]"
  by (simp add: parse_accounts_def loads_const_def simple_account_def strip_def before_hash_def
        after_hash_def py_isspace_def)

subsection \<open>Quota formatting\<close>

lemma rne_div_nonneg: "0 \<le> a \<Longrightarrow> 0 < b \<Longrightarrow> 0 \<le> rne_div a b"
  by (auto simp: rne_div_def Let_def pos_imp_zdiv_nonneg_iff)

lemma bitlen_le: "0 < x \<Longrightarrow> x < 2 ^ k \<Longrightarrow> bitlen x \<le> int k"
proof -
  assume x: "0 < x" and k: "x < 2 ^ k"
  have "(2::int) ^ nat (bitlen x - 1) \<le> x" using bitlen_bounds [OF x] by simp
  with k have "(2::int) ^ nat (bitlen x - 1) < 2 ^ k" by linarith
  then have "nat (bitlen x - 1) < k" by simp
  then show ?thesis by linarith
qed

lemma ilog2_ratio_le: "ilog2_ratio a b \<le> bitlen a"
  using bitlen_nonneg [of b] by (auto simp: ilog2_ratio_def Let_def)

lemma double_of_ratio_nonneg:
  assumes "0 \<le> a" and "0 < b"
  shows "0 \<le> fst (double_of_ratio a b)"
  using assms by (auto simp: double_of_ratio_def Let_def intro!: rne_div_nonneg)

lemma double_of_ratio_exp:
  assumes "0 < a" and "a < 2 ^ 1000"
  shows "snd (double_of_ratio a b) \<le> 948"
proof -
  have "bitlen a \<le> 1000" using bitlen_le [OF assms] by simp
  with ilog2_ratio_le [of a b] show ?thesis
    by (simp add: double_of_ratio_def Let_def)
qed

lemma float_fmt2_shape:
  assumes "0 \<le> m"
  shows "\<exists>ip k. k < 100 \<and> float_fmt2 (Finite m e) = str_nat ip @ [46] @ two_digits k"
proof -
  define N where "N = nat (if 0 \<le> e then \<bar>m\<bar> * 2 ^ nat e * 100
                           else rne_div (\<bar>m\<bar> * 100) (2 ^ nat (- e)))"
  have "float_fmt2 (Finite m e) = str_nat (N div 100) @ [46] @ two_digits (N mod 100)"
    using assms by (simp add: N_def Let_def)
  moreover have "N mod 100 < 100" by simp
  ultimately show ?thesis by blast
qed

lemma int_truediv_shape:
  assumes "0 < n" and "n < 2 ^ 1000" and "0 < d"
  shows "\<exists>m e. 0 \<le> m \<and> int_truediv n d = Inr (Finite m e)"
proof -
  obtain m e where me: "double_of_ratio n d = (m, e)" by (cases "double_of_ratio n d")
  have e: "e \<le> 948" using double_of_ratio_exp [OF assms(1,2), of d] me by simp
  have m: "0 \<le> m" using double_of_ratio_nonneg [of n d] assms me by simp
  have "int_truediv n d = Inr (signed_double False (m, e))"
    using assms(1) e me by (simp add: int_truediv_def)
  then show ?thesis using m by (auto simp: signed_double_def)
qed

lemma double_of_ratio_1500: "double_of_ratio 1500 1000 = (6755399441055744, -52)"
  by (simp add: double_of_ratio_def ilog2_ratio_def rne_div_def compute_bitlen Let_def)

lemma double_of_ratio_2500000: "double_of_ratio 2500000 1000000 = (5629499534213120, -51)"
  by (simp add: double_of_ratio_def ilog2_ratio_def rne_div_def compute_bitlen Let_def)

lemma double_of_ratio_150000: "double_of_ratio 150000 1000 = (5277655813324800, -45)"
  by (simp add: double_of_ratio_def ilog2_ratio_def rne_div_def compute_bitlen Let_def)

lemma quota_str_150000: "quota_str rp (PInt 150000) = Inr (ascii ''150.00K'')"
  by (simp add: quota_str_def int_truediv_def double_of_ratio_150000 signed_double_def
        rne_div_def two_digits_def str_nat.simps Let_def)

text \<open>
  Claim C8. The quota text of the notification: an integer below 1,000 is printed as it
  is, one from 1,000 up to 999,999 as a number with two decimals and the suffix \<open>K\<close>, one
  from 1,000,000 on (as far as the quotient fits a double, which holds below \<open>2 ^ 1000\<close>)
  as a number with two decimals and the suffix \<open>M\<close>; 500 gives \<open>500\<close>, 1500 gives
  \<open>1.50K\<close> and 2,500,000 gives \<open>2.50M\<close>.
\<close>

theorem quota_str_thresholds:
  "quota_str rp (PInt 500) = Inr (ascii ''500'')
   \<and> quota_str rp (PInt 1500) = Inr (ascii ''1.50K'')
   \<and> quota_str rp (PInt 2500000) = Inr (ascii ''2.50M'')
   \<and> (\<forall>n. n < 1000 \<longrightarrow> quota_str rp (PInt n) = Inr (str_int n))
   \<and> (\<forall>n. 1000 \<le> n \<and> n < 1000000 \<longrightarrow>
         (\<exists>ip k. k < 100 \<and>
            quota_str rp (PInt n) = Inr (str_nat ip @ [46] @ two_digits k @ ascii ''K'')))
   \<and> (\<forall>n. 1000000 \<le> n \<and> n < 2 ^ 1000 \<longrightarrow>
         (\<exists>ip k. k < 100 \<and>
            quota_str rp (PInt n) = Inr (str_nat ip @ [46] @ two_digits k @ ascii ''M'')))"
proof -
  have a: "quota_str rp (PInt 500) = Inr (ascii ''500'')"
    by (simp add: quota_str_def str_int_def str_nat.simps)
  have b: "quota_str rp (PInt 1500) = Inr (ascii ''1.50K'')"
    by (simp add: quota_str_def int_truediv_def double_of_ratio_1500 signed_double_def
          rne_div_def two_digits_def str_nat.simps Let_def)
  have c: "quota_str rp (PInt 2500000) = Inr (ascii ''2.50M'')"
    by (simp add: quota_str_def int_truediv_def double_of_ratio_2500000 signed_double_def
          rne_div_def two_digits_def str_nat.simps Let_def)
  have d: "quota_str rp (PInt n) = Inr (str_int n)" if "n < 1000" for n
    using that by (simp add: quota_str_def)
  have e: "\<exists>ip k. k < 100 \<and>
            quota_str rp (PInt n) = Inr (str_nat ip @ [46] @ two_digits k @ ascii ''K'')"
    if "1000 \<le> n \<and> n < 1000000" for n
  proof -
    from that have "0 < n" and "n < 2 ^ 1000" by simp_all
    then obtain m e where m: "0 \<le> m" and t: "int_truediv n 1000 = Inr (Finite m e)"
      using int_truediv_shape [of n 1000] by auto
    from float_fmt2_shape [OF m, of e] obtain ip k where
      "k < 100" "float_fmt2 (Finite m e) = str_nat ip @ [46] @ two_digits k" by blast
    moreover have "quota_str rp (PInt n) = Inr (float_fmt2 (Finite m e) @ ascii ''K'')"
      using that t by (simp add: quota_str_def)
    ultimately show ?thesis by auto
  qed
  have f: "\<exists>ip k. k < 100 \<and>
            quota_str rp (PInt n) = Inr (str_nat ip @ [46] @ two_digits k @ ascii ''M'')"
    if "1000000 \<le> n \<and> n < 2 ^ 1000" for n
  proof -
    from that have "0 < n" and "n < 2 ^ 1000" by simp_all
    then obtain m e where m: "0 \<le> m" and t: "int_truediv n 1000000 = Inr (Finite m e)"
      using int_truediv_shape [of n 1000000] by auto
    from float_fmt2_shape [OF m, of e] obtain ip k where
      "k < 100" "float_fmt2 (Finite m e) = str_nat ip @ [46] @ two_digits k" by blast
    moreover have "quota_str rp (PInt n) = Inr (float_fmt2 (Finite m e) @ ascii ''M'')"
      using that t by (simp add: quota_str_def)
    ultimately show ?thesis by auto
  qed
  from a b c d e f show ?thesis by blast
qed

text \<open>Scenario A of the specification: a quota of 150000 is printed as \<open>150.00K\<close>.\<close>

theorem quota_str_thresholds_witness:
  "(1000::int) \<le> 150000 \<and> (150000::int) < 1000000
   \<and> quota_str repr_unused (PInt 150000) = Inr (ascii ''150.00K'')
   \<and> (\<exists>ip k. k < 100 \<and> quota_str repr_unused (PInt 150000)
                = Inr (str_nat ip @ [46] @ two_digits k @ ascii ''K''))
   \<and> quota_str repr_unused (PInt 2500000) = Inr (ascii ''2.50M'')"
proof -
  have "\<exists>ip k. k < 100 \<and> quota_str repr_unused (PInt 150000)
                = Inr (str_nat ip @ [46] @ two_digits k @ ascii ''K'')"
    using quota_str_thresholds [of repr_unused] by simp
  moreover have "quota_str repr_unused (PInt 2500000) = Inr (ascii ''2.50M'')"
    using quota_str_thresholds [of repr_unused] by blast
  ultimately show ?thesis using quota_str_150000 [of repr_unused] by simp
qed

subsection \<open>The line of a successful account\<close>

lemma quota_str_number:
  assumes "quota_str rp q = Inr qs"
  shows "py_is_number q"
  using assms by (cases q) (simp_all add: quota_str_def)

text \<open>
  Claim C10. In a notification that was formatted, the line of a successful account is
  the mark, the name and the message, then the quota suffix \<^verbatim>\<open> \(+...\)\<close> with the scaled
  quota exactly when \<^verbatim>\<open>quota_awarded\<close> is a number with a true truth value, then the
  monthly count if there is one. With a quota of 0 or \<^verbatim>\<open>None\<close> (or any other value
  that is not a truthy number) the line holds no quota amount.
\<close>

theorem success_line_quota_suffix:
  assumes "r_success result" and "account_line rp result = Inr line"
  shows "(truthy (r_quota_awarded result) \<and> py_is_number (r_quota_awarded result) \<longrightarrow>
           (\<exists>qs. quota_str rp (r_quota_awarded result) = Inr qs \<and>
              line = emoji_ok @ ascii '' *'' @ py_str rp (r_name result) @ ascii ''*: ''
                     @ py_str rp (r_message result)
                     @ ascii '' '' @ [92] @ ascii ''(+'' @ qs @ [92] @ ascii '')''
                     @ (if r_checkin_count result \<noteq> PNone
                        then txt_signed_this_month @ py_str rp (r_checkin_count result) @ txt_days
                        else [])))
    \<and> (\<not> (truthy (r_quota_awarded result) \<and> py_is_number (r_quota_awarded result)) \<longrightarrow>
           line = emoji_ok @ ascii '' *'' @ py_str rp (r_name result) @ ascii ''*: ''
                  @ py_str rp (r_message result)
                  @ (if r_checkin_count result \<noteq> PNone
                     then txt_signed_this_month @ py_str rp (r_checkin_count result) @ txt_days
                     else []))
    \<and> (r_quota_awarded result = PInt 0 \<or> r_quota_awarded result = PNone \<longrightarrow>
           line = emoji_ok @ ascii '' *'' @ py_str rp (r_name result) @ ascii ''*: ''
                  @ py_str rp (r_message result)
                  @ (if r_checkin_count result \<noteq> PNone
                     then txt_signed_this_month @ py_str rp (r_checkin_count result) @ txt_days
                     else []))"
proof (cases "truthy (r_quota_awarded result)")
  case True
  with assms obtain qs where qs: "quota_str rp (r_quota_awarded result) = Inr qs"
    by (auto simp: account_line_def success_line_def Let_def split: sum.splits)
  then have "py_is_number (r_quota_awarded result)" by (rule quota_str_number)
  moreover from True have "r_quota_awarded result \<noteq> PInt 0" "r_quota_awarded result \<noteq> PNone"
    by auto
  ultimately show ?thesis
    using assms True qs by (auto simp: account_line_def success_line_def Let_def)
next
  case False
  with assms show ?thesis
    by (auto simp: account_line_def success_line_def Let_def)
qed

text \<open>
  A successful account "A" with message "ok", 3 days this month and a quota of 150000,
  and the same account with a quota of 0.
\<close>

theorem success_line_quota_suffix_witness:
  "account_line repr_unused \<lparr>r_name = PStr (ascii ''A''), r_success = True,
       r_message = PStr (ascii ''ok''), r_quota_awarded = PInt 150000,
       r_checkin_count = PInt 3\<rparr>
     = Inr (emoji_ok @ ascii '' *A*: ok '' @ [92] @ ascii ''(+150.00K'' @ [92] @ ascii '')''
            @ txt_signed_this_month @ ascii ''3'' @ txt_days)
   \<and> account_line repr_unused \<lparr>r_name = PStr (ascii ''A''), r_success = True,
       r_message = PStr (ascii ''ok''), r_quota_awarded = PInt 0,
       r_checkin_count = PInt 3\<rparr>
     = Inr (emoji_ok @ ascii '' *A*: ok'' @ txt_signed_this_month @ ascii ''3'' @ txt_days)"
proof -
  let ?r = "\<lparr>r_name = PStr (ascii ''A''), r_success = True,
       r_message = PStr (ascii ''ok''), r_quota_awarded = PInt 150000,
       r_checkin_count = PInt 3\<rparr>"
  let ?l = "emoji_ok @ ascii '' *A*: ok '' @ [92] @ ascii ''(+150.00K'' @ [92] @ ascii '')''
            @ txt_signed_this_month @ ascii ''3'' @ txt_days"
  let ?rz = "\<lparr>r_name = PStr (ascii ''A''), r_success = True,
       r_message = PStr (ascii ''ok''), r_quota_awarded = PInt 0,
       r_checkin_count = PInt 3\<rparr>"
  let ?lz = "emoji_ok @ ascii '' *A*: ok'' @ txt_signed_this_month @ ascii ''3'' @ txt_days"
  have a: "account_line repr_unused ?r = Inr ?l"
    by (simp add: account_line_def success_line_def quota_str_150000 str_int_def str_nat.simps)
  have b: "account_line repr_unused ?rz = Inr ?lz"
    by (simp add: account_line_def success_line_def str_int_def str_nat.simps)
  have "\<exists>qs. quota_str repr_unused (PInt 150000) = Inr qs"
    using success_line_quota_suffix [of ?r repr_unused ?l] a by auto
  moreover have "?lz = emoji_ok @ ascii '' *'' @ ascii ''A'' @ ascii ''*: '' @ ascii ''ok''
         @ txt_signed_this_month @ str_int 3 @ txt_days"
    using success_line_quota_suffix [of ?rz repr_unused ?lz] b by simp
  ultimately show ?thesis using a b by simp
qed

subsection \<open>User-id derivation\<close>

lemma first_match_Some_iff:
  "first_match search ps s = Some g \<longleftrightarrow>
     (\<exists>i < length ps. search (ps ! i) s = Some g \<and> (\<forall>j < i. search (ps ! j) s = None))"
proof (induction ps)
  case Nil
  then show ?case by simp
next
  case (Cons p ps)
  show ?case
  proof (cases "search p s")
    case None
    have "(\<exists>i < length (p # ps). search ((p # ps) ! i) s = Some g
              \<and> (\<forall>j < i. search ((p # ps) ! j) s = None))
          \<longleftrightarrow> (\<exists>i < length ps. search (ps ! i) s = Some g \<and> (\<forall>j < i. search (ps ! j) s = None))"
      (is "?L \<longleftrightarrow> ?R")
    proof
      assume ?L
      then obtain i where i: "i < length (p # ps)" "search ((p # ps) ! i) s = Some g"
        "\<forall>j < i. search ((p # ps) ! j) s = None" by blast
      with None obtain k where k: "i = Suc k" by (cases i) auto
      with i have "k < length ps" "search (ps ! k) s = Some g" by auto
      moreover have "\<forall>j < k. search (ps ! j) s = None"
      proof (intro allI impI)
        fix j assume "j < k"
        then have "Suc j < i" using k by simp
        with i(3) have "search ((p # ps) ! Suc j) s = None" by blast
        then show "search (ps ! j) s = None" by simp
      qed
      ultimately show ?R by blast
    next
      assume ?R
      then obtain k where k: "k < length ps" "search (ps ! k) s = Some g"
        "\<forall>j < k. search (ps ! j) s = None" by blast
      have "\<forall>j < Suc k. search ((p # ps) ! j) s = None"
      proof (intro allI impI)
        fix j assume "j < Suc k"
        then show "search ((p # ps) ! j) s = None"
          using None k(3) by (cases j) auto
      qed
      with k show ?L by (intro exI [of _ "Suc k"]) auto
    qed
    with None Cons show ?thesis by simp
  next
    case (Some h)
    have "(\<exists>i < length (p # ps). search ((p # ps) ! i) s = Some g
              \<and> (\<forall>j < i. search ((p # ps) ! j) s = None)) \<longleftrightarrow> h = g"
      (is "?L \<longleftrightarrow> _")
    proof
      assume ?L
      then obtain i where i: "search ((p # ps) ! i) s = Some g"
        "\<forall>j < i. search ((p # ps) ! j) s = None" by blast
      have "i = 0"
      proof (rule ccontr)
        assume "i \<noteq> 0"
        then have "search ((p # ps) ! 0) s = None" using i(2) by blast
        with Some show False by simp
      qed
      with i(1) Some show "h = g" by simp
    next
      assume "h = g"
      with Some show ?L by (intro exI [of _ 0]) auto
    qed
    with Some show ?thesis by simp
  qed
qed

lemma first_match_None_iff:
  "first_match search ps s = None \<longleftrightarrow> (\<forall>p \<in> set ps. search p s = None)"
  by (induction ps) (auto split: option.splits)

text \<open>
  Claim C6. \<^verbatim>\<open>_extract_user_id_from_session\<close> returns for every argument and never
  raises. For a token that is a string it decodes the token with \<^verbatim>\<open>==\<close> appended; when
  decoding raises, the result is \<^verbatim>\<open>None\<close>; otherwise the decoded bytes are read as
  text and the result is the first group of the first pattern, in the order of the
  source, that matches the text (\<^verbatim>\<open>None\<close> when none does). For an argument that is not
  a string the result is \<^verbatim>\<open>None\<close> as well.
\<close>

theorem extract_user_id_never_raises:
  "(\<exists>r. extract_user_id_from_session lib sc = Inr r
         \<and> (r = PNone \<or> (\<exists>g. r = PStr g)))
   \<and> (\<forall>s t. sc = PStr s \<longrightarrow> lib_b64decode lib (s @ ascii ''=='') = Inl t \<longrightarrow>
          extract_user_id_from_session lib sc = Inr PNone)
   \<and> ((\<forall>s. sc \<noteq> PStr s) \<longrightarrow> extract_user_id_from_session lib sc = Inr PNone)
   \<and> (\<forall>s decoded g. sc = PStr s \<longrightarrow> lib_b64decode lib (s @ ascii ''=='') = Inr decoded \<longrightarrow>
          (extract_user_id_from_session lib sc = Inr (PStr g) \<longleftrightarrow>
             (\<exists>i < length patterns.
                lib_search_group1 lib (patterns ! i) (lib_decode_ignore lib decoded) = Some g
                \<and> (\<forall>j < i. lib_search_group1 lib (patterns ! j) (lib_decode_ignore lib decoded)
                              = None))))
   \<and> (\<forall>s decoded. sc = PStr s \<longrightarrow> lib_b64decode lib (s @ ascii ''=='') = Inr decoded \<longrightarrow>
          (extract_user_id_from_session lib sc = Inr PNone \<longleftrightarrow>
             (\<forall>i < length patterns.
                lib_search_group1 lib (patterns ! i) (lib_decode_ignore lib decoded) = None)))"
proof -
  have ex: "is_Exception e" if "extract_body lib sc = Inl e" for e
    using that by (cases sc) (auto simp: extract_body_def split: sum.splits elim: concat_error.elims)
  have 1: "\<exists>r. extract_user_id_from_session lib sc = Inr r \<and> (r = PNone \<or> (\<exists>g. r = PStr g))"
    using ex by (auto simp: extract_user_id_from_session_def split: sum.splits option.splits)
  have 2: "extract_user_id_from_session lib sc = Inr PNone"
    if "sc = PStr s" "lib_b64decode lib (s @ ascii ''=='') = Inl t" for s t
    using that by (simp add: extract_user_id_from_session_def extract_body_def)
  have 3: "extract_user_id_from_session lib sc = Inr PNone" if "\<forall>s. sc \<noteq> PStr s"
    using that ex [of "concat_error sc"]
    by (cases sc) (auto simp: extract_user_id_from_session_def extract_body_def)
  have 4: "extract_user_id_from_session lib sc =
             Inr (case first_match (lib_search_group1 lib) patterns (lib_decode_ignore lib decoded)
                  of None \<Rightarrow> PNone | Some g \<Rightarrow> PStr g)"
    if "sc = PStr s" "lib_b64decode lib (s @ ascii ''=='') = Inr decoded" for s decoded
    using that
    by (simp add: extract_user_id_from_session_def extract_body_def split: option.splits)
  have 5: "extract_user_id_from_session lib sc = Inr (PStr g) \<longleftrightarrow>
             (\<exists>i < length patterns.
                lib_search_group1 lib (patterns ! i) (lib_decode_ignore lib decoded) = Some g
                \<and> (\<forall>j < i. lib_search_group1 lib (patterns ! j) (lib_decode_ignore lib decoded)
                              = None))"
    if "sc = PStr s" "lib_b64decode lib (s @ ascii ''=='') = Inr decoded" for s decoded g
    unfolding 4 [OF that] first_match_Some_iff [symmetric]
    by (simp split: option.splits)
  have 6: "extract_user_id_from_session lib sc = Inr PNone \<longleftrightarrow>
             (\<forall>i < length patterns.
                lib_search_group1 lib (patterns ! i) (lib_decode_ignore lib decoded) = None)"
    if "sc = PStr s" "lib_b64decode lib (s @ ascii ''=='') = Inr decoded" for s decoded
  proof -
    let ?f = "first_match (lib_search_group1 lib) patterns (lib_decode_ignore lib decoded)"
    have "?f = None \<longleftrightarrow> (\<forall>i < length patterns.
                lib_search_group1 lib (patterns ! i) (lib_decode_ignore lib decoded) = None)"
      by (simp only: first_match_None_iff all_set_conv_all_nth)
    moreover have "extract_user_id_from_session lib sc = Inr PNone \<longleftrightarrow> ?f = None"
      unfolding 4 [OF that] by (cases ?f) simp_all
    ultimately show ?thesis by simp
  qed
  from 1 2 3 5 6 show ?thesis by blast
qed

text \<open>
  The token \<^verbatim>\<open>bGludXhkb185ODg\<close> decodes to the text \<^verbatim>\<open>linuxdo_988\<close>, which only the first
  pattern matches, with group \<^verbatim>\<open>988\<close>; for the token \<^verbatim>\<open>a\<close>, \<^verbatim>\<open>b64decode\<close> raises.
\<close>

theorem extract_user_id_never_raises_witness:
  "extract_user_id_from_session
     (lib_fixed JSONDecodeError (Inr [108, 105, 110, 117, 120, 100, 111, 95, 57, 56, 56])
        (ascii ''linuxdo_988'') [(patterns ! 0, ascii ''988'')])
     (PStr (ascii ''bGludXhkb185ODg'')) = Inr (PStr (ascii ''988''))
   \<and> extract_user_id_from_session
     (lib_fixed JSONDecodeError (Inl (ascii ''Invalid base64-encoded string'')) [] [])
     (PStr (ascii ''a'')) = Inr PNone"
proof -
  let ?lib = "lib_fixed JSONDecodeError (Inl (ascii ''Invalid base64-encoded string'')) [] []"
  have "lib_b64decode ?lib (ascii ''a'' @ ascii ''=='') = Inl (ascii ''Invalid base64-encoded string'')"
    by (simp add: lib_fixed_def)
  then have "extract_user_id_from_session ?lib (PStr (ascii ''a'')) = Inr PNone"
    using extract_user_id_never_raises [of ?lib "PStr (ascii ''a'')"] by blast
  moreover have "extract_user_id_from_session
     (lib_fixed JSONDecodeError (Inr [108, 105, 110, 117, 120, 100, 111, 95, 57, 56, 56])
        (ascii ''linuxdo_988'') [(patterns ! 0, ascii ''988'')])
     (PStr (ascii ''bGludXhkb185ODg'')) = Inr (PStr (ascii ''988''))"
    by (simp add: extract_user_id_from_session_def extract_body_def lib_fixed_def patterns_def)
  ultimately show ?thesis by simp
qed

subsection \<open>The account loop\<close>

lemma run_accounts_complete:
  assumes "run_accounts lib rem i accts st = (None, st')"
  shows "\<exists>rs. length rs = length accts
      \<and> checkin_results st' = checkin_results st @ rs
      \<and> (\<forall>k < length accts. snd (process_account lib rem (i + k) (accts ! k)) = Inr (rs ! k))
      \<and> success_count st' = success_count st + length (filter r_success rs)
      \<and> fail_count st' = fail_count st + length (filter (\<lambda>r. \<not> r_success r) rs)"
  using assms
proof (induction accts arbitrary: i st)
  case Nil
  then show ?case by simp
next
  case (Cons a accts)
  obtain cs out where p: "process_account lib rem i a = (cs, out)"
    by (cases "process_account lib rem i a")
  with Cons.prems obtain r where r: "out = Inr r" by (cases out) auto
  let ?st = "st\<lparr>success_count := (if r_success r then Suc (success_count st)
                                   else success_count st),
                fail_count := (if r_success r then fail_count st else Suc (fail_count st)),
                checkin_results := checkin_results st @ [r],
                calls := calls st @ cs\<rparr>"
  from Cons.prems p r have "run_accounts lib rem (Suc i) accts ?st = (None, st')" by simp
  from Cons.IH [OF this] obtain rs where rs: "length rs = length accts"
      "checkin_results st' = checkin_results ?st @ rs"
      "\<forall>k < length accts. snd (process_account lib rem (Suc i + k) (accts ! k)) = Inr (rs ! k)"
      "success_count st' = success_count ?st + length (filter r_success rs)"
      "fail_count st' = fail_count ?st + length (filter (\<lambda>r. \<not> r_success r) rs)"
    by blast
  have "\<forall>k < length (a # accts).
          snd (process_account lib rem (i + k) ((a # accts) ! k)) = Inr ((r # rs) ! k)"
  proof (intro allI impI)
    fix k assume "k < length (a # accts)"
    then show "snd (process_account lib rem (i + k) ((a # accts) ! k)) = Inr ((r # rs) ! k)"
      using p r rs(3) by (cases k) auto
  qed
  with rs show ?case by (intro exI [of _ "r # rs"]) auto
qed

lemma run_accounts_no_abort:
  assumes "\<forall>k < length accts. \<exists>r. snd (process_account lib rem (i + k) (accts ! k)) = Inr r"
  shows "\<exists>st'. run_accounts lib rem i accts st = (None, st')"
  using assms
proof (induction accts arbitrary: i st)
  case Nil
  then show ?case by simp
next
  case (Cons a accts)
  from Cons.prems have "\<exists>r. snd (process_account lib rem (i + 0) ((a # accts) ! 0)) = Inr r"
    by blast
  then obtain cs r where p: "process_account lib rem i a = (cs, Inr r)"
    by (cases "process_account lib rem i a") auto
  have "\<forall>k < length accts. \<exists>r. snd (process_account lib rem (Suc i + k) (accts ! k)) = Inr r"
  proof (intro allI impI)
    fix k assume "k < length accts"
    then have "Suc k < length (a # accts)" by simp
    with Cons.prems have
      "\<exists>r. snd (process_account lib rem (i + Suc k) ((a # accts) ! Suc k)) = Inr r" by blast
    then show "\<exists>r. snd (process_account lib rem (Suc i + k) (accts ! k)) = Inr r" by simp
  qed
  from Cons.IH [OF this] p show ?case by simp
qed

text \<open>
  A check-in that fails is recorded as a failed outcome with the check-in's message,
  provided the client was built and the profile, when one was fetched, has a user name
  that can be masked (a string, or no \<^verbatim>\<open>username\<close> key at all).
\<close>

lemma process_account_failure:
  assumes "client_init lib (acc_url a) (acc_session a)
             (case acc_user_id a of None \<Rightarrow> PNone | Some v \<Rightarrow> v) = Inr c"
    and "truthy (snd (get_user_info c (rem i UserSelf))) \<longrightarrow>
           (\<exists>shown. masked_username (snd (get_user_info c (rem i UserSelf))) = Inr shown)"
    and "\<not> success (checkin (lib_repr lib) (rem i Checkin))"
  shows "process_account lib rem i a =
           ([ApiCall i UserSelf, ApiCall i Checkin],
            Inr \<lparr>r_name = (if truthy (acc_name a) then acc_name a
                            else PStr (txt_account @ str_nat i)),
                 r_success = False,
                 r_message = message (checkin (lib_repr lib) (rem i Checkin)),
                 r_quota_awarded = PNone, r_checkin_count = PNone\<rparr>)"
  using assms
  by (cases "get_user_info c (rem i UserSelf)") (auto simp: process_account_def Let_def)

text \<open>
  When the loop over the accounts runs to its end, the two counters add up to the number
  of accounts, which is the number of outcomes; the outcomes are those of the accounts,
  one each, in input order, and the counters count the successful and the failed ones.
  The loop is left early only by an exception that a loop body raises: it runs to its end
  whenever every body returns an outcome, whatever the outcomes are.
\<close>

lemma run_accounts_invariant:
  "(\<forall>st'. run_accounts lib rem 1 accts initial_state = (None, st') \<longrightarrow>
      success_count st' + fail_count st' = length accts
      \<and> length (checkin_results st') = length accts
      \<and> (\<forall>k < length accts.
            snd (process_account lib rem (Suc k) (accts ! k)) = Inr (checkin_results st' ! k))
      \<and> success_count st' = length (filter r_success (checkin_results st'))
      \<and> fail_count st' = length (filter (\<lambda>r. \<not> r_success r) (checkin_results st')))
   \<and> ((\<forall>k < length accts. \<exists>r. snd (process_account lib rem (Suc k) (accts ! k)) = Inr r) \<longrightarrow>
        (\<exists>st'. run_accounts lib rem 1 accts initial_state = (None, st')))"
proof -
  have A: "success_count st' + fail_count st' = length accts
      \<and> length (checkin_results st') = length accts
      \<and> (\<forall>k < length accts.
            snd (process_account lib rem (Suc k) (accts ! k)) = Inr (checkin_results st' ! k))
      \<and> success_count st' = length (filter r_success (checkin_results st'))
      \<and> fail_count st' = length (filter (\<lambda>r. \<not> r_success r) (checkin_results st'))"
    if "run_accounts lib rem 1 accts initial_state = (None, st')" for st'
  proof -
    from run_accounts_complete [OF that] obtain rs where rs: "length rs = length accts"
      "checkin_results st' = rs"
      "\<forall>k < length accts. snd (process_account lib rem (1 + k) (accts ! k)) = Inr (rs ! k)"
      "success_count st' = length (filter r_success rs)"
      "fail_count st' = length (filter (\<lambda>r. \<not> r_success r) rs)"
      by (auto simp: initial_state_def)
    have "length (filter r_success rs) + length (filter (\<lambda>r. \<not> r_success r) rs) = length rs"
      by (rule sum_length_filter_compl)
    with rs show ?thesis by simp
  qed
  have B: "\<exists>st'. run_accounts lib rem 1 accts initial_state = (None, st')"
    if "\<forall>k < length accts. \<exists>r. snd (process_account lib rem (Suc k) (accts ! k)) = Inr r"
    using run_accounts_no_abort [of accts lib rem 1 initial_state] that by simp
  from A B show ?thesis by blast
qed

lemma demo_account_1:
  "process_account demo_lib demo_remote 1 (demo_accounts ! 0) =
     ([ApiCall 1 UserSelf, ApiCall 1 Checkin, ApiCall 1 CheckinHistory], Inr (demo_results ! 0))"
  by (simp add: process_account_def demo_lib_def lib_fixed_def demo_remote_def demo_accounts_def
        demo_results_def client_init_def extract_user_id_from_session_def extract_body_def
        get_user_info_def user_info_body_def masked_username_def checkin_def checkin_body_def
        print_quota_def quota_str_150000 get_checkin_history_def history_count_def
        str_nat.simps Let_def)

lemma demo_account_2:
  "process_account demo_lib demo_remote 2 (demo_accounts ! 1) =
     ([ApiCall 2 UserSelf, ApiCall 2 Checkin], Inr (demo_results ! 1))"
  by (simp add: process_account_def demo_lib_def lib_fixed_def demo_remote_def demo_accounts_def
        demo_results_def client_init_def extract_user_id_from_session_def extract_body_def
        get_user_info_def checkin_def str_nat.simps Let_def)

lemma demo_run:
  "run_accounts demo_lib demo_remote 1 demo_accounts initial_state =
     (None, \<lparr>success_count = 1, fail_count = 1, checkin_results = demo_results,
             calls = demo_calls\<rparr>)"
proof -
  have a: "demo_accounts = [demo_accounts ! 0, demo_accounts ! 1]"
    by (simp add: demo_accounts_def)
  have r: "demo_results = [demo_results ! 0, demo_results ! 1]"
    by (simp add: demo_results_def)
  have "run_accounts demo_lib demo_remote 1 [demo_accounts ! 0, demo_accounts ! 1] initial_state =
     (None, \<lparr>success_count = 1, fail_count = 1,
             checkin_results = [demo_results ! 0, demo_results ! 1], calls = demo_calls\<rparr>)"
    using demo_account_1 demo_account_2 [unfolded numeral_2_eq_2]
    by (simp add: initial_state_def demo_calls_def numeral_2_eq_2) (simp add: demo_results_def)
  with a r show ?thesis by simp
qed

lemma demo_parse:
  "parse_accounts (lib_loads demo_lib) (ascii ''https://a.example#sess1,https://b.example#sess2'')
     = Inr demo_accounts"
  by (simp add: parse_accounts_def demo_lib_def lib_fixed_def loads_const_def demo_accounts_def
        simple_account_def strip_def before_hash_def after_hash_def py_isspace_def)

lemma abort_account_1:
  "process_account demo_lib abort_remote 1 (demo_accounts ! 0) =
     ([ApiCall 1 UserSelf], Inl len_error)"
  by (simp add: process_account_def demo_lib_def lib_fixed_def abort_remote_def
        null_username_profile_def demo_accounts_def client_init_def
        extract_user_id_from_session_def extract_body_def get_user_info_def user_info_body_def
        masked_username_def len_error_def Let_def)

lemma abort_account_2:
  "process_account demo_lib abort_remote 2 (demo_accounts ! 1) =
     ([ApiCall 2 UserSelf, ApiCall 2 Checkin, ApiCall 2 CheckinHistory],
      Inr \<lparr>r_name = PStr (txt_account @ ascii ''2''), r_success = True,
           r_message = PStr (ascii ''ok''), r_quota_awarded = PInt 150000,
           r_checkin_count = PInt 1\<rparr>)"
  by (simp add: process_account_def demo_lib_def lib_fixed_def abort_remote_def demo_remote_def
        demo_accounts_def client_init_def extract_user_id_from_session_def extract_body_def
        get_user_info_def user_info_body_def masked_username_def checkin_def checkin_body_def
        print_quota_def quota_str_150000 get_checkin_history_def history_count_def
        str_nat.simps Let_def)

lemma abort_run:
  "run_accounts demo_lib abort_remote 1 demo_accounts initial_state =
     (Some len_error,
      \<lparr>success_count = 0, fail_count = 0, checkin_results = [], calls = [ApiCall 1 UserSelf]\<rparr>)"
proof -
  have a: "demo_accounts = [demo_accounts ! 0, demo_accounts ! 1]"
    by (simp add: demo_accounts_def)
  have "run_accounts demo_lib abort_remote 1 [demo_accounts ! 0, demo_accounts ! 1] initial_state =
     (Some len_error,
      \<lparr>success_count = 0, fail_count = 0, checkin_results = [], calls = [ApiCall 1 UserSelf]\<rparr>)"
    using abort_account_1 by (simp add: initial_state_def)
  with a show ?thesis by simp
qed

text \<open>
  Claim C4. The claim says that a full run produces exactly one outcome per account, in
  input order, with counters that add up to the number of accounts, and that the run never
  aborts early on a single account's failure. The client's three operations catch every
  exception, but lines 491 to 493, 519 to 527 and 531 to 542 of \<^verbatim>\<open>main\<close> work on what
  the service sent outside every \<^verbatim>\<open>try\<close>. With the two accounts configured and the first
  account's profile answered by \<^verbatim>\<open>{"success": true, "data": {"username": null}}\<close>,
  \<^verbatim>\<open>len(username)\<close> raises \<^verbatim>\<open>TypeError\<close>: the loop is left after one of five requests,
  no outcome is recorded and both counters are 0 for two accounts, the second account is
  never contacted although its check-in would have succeeded, no notification is sent
  although Telegram is configured, and the process ends with status 1.
\<close>

theorem run_aborts_on_null_username:
  "parse_accounts (lib_loads demo_lib) (ascii ''https://a.example#sess1,https://b.example#sess2'')
     = Inr demo_accounts
   \<and> length demo_accounts = 2
   \<and> run_accounts demo_lib abort_remote 1 demo_accounts initial_state =
       (Some len_error,
        \<lparr>success_count = 0, fail_count = 0, checkin_results = [],
         calls = [ApiCall 1 UserSelf]\<rparr>)
   \<and> process_account demo_lib abort_remote 2 (demo_accounts ! 1) =
       ([ApiCall 2 UserSelf, ApiCall 2 Checkin, ApiCall 2 CheckinHistory],
        Inr \<lparr>r_name = PStr (txt_account @ ascii ''2''), r_success = True,
             r_message = PStr (ascii ''ok''), r_quota_awarded = PInt 150000,
             r_checkin_count = PInt 1\<rparr>)
   \<and> main demo_lib abort_world = ([ApiCall 1 UserSelf], Inl len_error)
   \<and> exit_status (snd (main demo_lib abort_world)) = 1"
proof -
  have p: "parse_accounts (lib_loads demo_lib)
             (ascii ''https://a.example#sess1,https://b.example#sess2'') = Inr demo_accounts"
    by (rule demo_parse)
  have n: "demo_accounts \<noteq> []" and l: "length demo_accounts = 2"
    by (simp_all add: demo_accounts_def)
  have m: "main demo_lib abort_world = ([ApiCall 1 UserSelf], Inl len_error)"
    using p n abort_run by (simp add: main_def abort_world_def)
  have x: "exit_status (snd (main demo_lib abort_world)) = 1"
    by (simp add: m len_error_def)
  from p l abort_run abort_account_2 m x show ?thesis by blast
qed

subsection \<open>Every exception the model raises, but \<open>SystemExit\<close>, is of class \<^verbatim>\<open>Exception\<close>\<close>

lemma py_get_exn: "py_get v k d = Inl e \<Longrightarrow> is_Exception e"
  by (cases v) (auto simp: attribute_error_def)

lemma py_len_exn: "py_len v = Inl e \<Longrightarrow> is_Exception e"
  by (cases v) auto

lemma truncate_msg_exn: "truncate_msg v = Inl e \<Longrightarrow> is_Exception e"
  by (cases v) auto

lemma slice_plus_exn: "slice_plus k t v = Inl e \<Longrightarrow> is_Exception e"
  by (cases v) auto

lemma py_ge_int_exn: "py_ge_int v n = Inl e \<Longrightarrow> is_Exception e"
  by (cases v) (auto simp: operand_error_def)

lemma int_truediv_exn: "int_truediv i n = Inl e \<Longrightarrow> is_Exception e"
  by (auto simp: int_truediv_def split: if_splits prod.splits)

lemma py_truediv_int_exn: "py_truediv_int v n = Inl e \<Longrightarrow> is_Exception e"
  by (cases v) (auto simp: operand_error_def dest: int_truediv_exn)

lemma quota_str_exn: "quota_str rp q = Inl e \<Longrightarrow> is_Exception e"
  by (auto simp: quota_str_def split: sum.splits bool.splits
      dest: py_ge_int_exn py_truediv_int_exn)

lemma masked_username_exn: "masked_username u = Inl e \<Longrightarrow> is_Exception e"
  by (auto simp: masked_username_def split: sum.splits if_splits
      dest: py_get_exn py_len_exn slice_plus_exn)

lemma print_quota_exn: "print_quota rp q = Some e \<Longrightarrow> is_Exception e"
  by (auto simp: print_quota_def split: sum.splits if_splits dest: quota_str_exn)

lemma history_count_exn: "history_count rp h = Inl e \<Longrightarrow> is_Exception e"
  by (auto simp: history_count_def split: sum.splits if_splits
      dest: py_get_exn quota_str_exn)

lemma concat_error_exn: "is_Exception (concat_error v)"
  by (cases v) auto

lemma extract_body_exn: "extract_body lib sc = Inl e \<Longrightarrow> is_Exception e"
  by (cases sc) (auto simp: extract_body_def concat_error_exn split: sum.splits)

lemma extract_user_id_returns: "\<exists>r. extract_user_id_from_session lib sc = Inr r"
  by (auto simp: extract_user_id_from_session_def split: sum.splits option.splits
      dest: extract_body_exn)

lemma client_init_exn: "client_init lib url sc uid = Inl e \<Longrightarrow> is_Exception e"
  using extract_user_id_returns [of lib sc]
  by (cases url) (auto simp: client_init_def attribute_error_def split: if_splits sum.splits)

lemma process_account_exn:
  assumes "snd (process_account lib rem i a) = Inl e"
  shows "is_Exception e"
proof -
  let ?uid = "case acc_user_id a of None \<Rightarrow> PNone | Some v \<Rightarrow> v"
  show ?thesis
  proof (cases "client_init lib (acc_url a) (acc_session a) ?uid")
    case (Inl e')
    with assms have "e' = e" by (simp add: process_account_def Let_def)
    with Inl show ?thesis using client_init_exn by blast
  next
    case (Inr c)
    obtain c' ui where g: "get_user_info c (rem i UserSelf) = (c', ui)"
      by (cases "get_user_info c (rem i UserSelf)")
    show ?thesis
    proof (cases "if truthy ui then masked_username ui else Inr []")
      case (Inl e')
      with assms Inr g have "e' = e" by (simp add: process_account_def Let_def)
      with Inl show ?thesis using masked_username_exn by (auto split: if_splits)
    next
      case shown: (Inr t)
      let ?res = "checkin (lib_repr lib) (rem i Checkin)"
      show ?thesis
      proof (cases "success ?res")
        case False
        with assms Inr g shown show ?thesis by (simp add: process_account_def Let_def)
      next
        case True
        show ?thesis
        proof (cases "print_quota (lib_repr lib) (quota_awarded ?res)")
          case (Some e')
          with assms Inr g shown True have "e' = e" by (simp add: process_account_def Let_def)
          with Some show ?thesis using print_quota_exn by blast
        next
          case None
          with assms Inr g shown True have
            "history_count (lib_repr lib) (get_checkin_history (rem i CheckinHistory)) = Inl e"
            by (simp add: process_account_def Let_def split: sum.splits)
          then show ?thesis by (rule history_count_exn)
        qed
      qed
    qed
  qed
qed

lemma run_accounts_exn:
  "run_accounts lib rem i accts st = (Some e, st') \<Longrightarrow> is_Exception e"
proof (induction accts arbitrary: i st)
  case Nil
  then show ?case by simp
next
  case (Cons a accts)
  obtain cs out where p: "process_account lib rem i a = (cs, out)"
    by (cases "process_account lib rem i a")
  show ?case
  proof (cases out)
    case (Inl e')
    with Cons.prems p have "e' = e" by simp
    with p Inl have "snd (process_account lib rem i a) = Inl e" by simp
    then show ?thesis by (rule process_account_exn)
  next
    case (Inr r)
    with Cons.prems p show ?thesis using Cons.IH by simp
  qed
qed

lemma account_line_exn: "account_line rp r = Inl e \<Longrightarrow> is_Exception e"
  by (auto simp: account_line_def success_line_def failure_line_def Let_def
      split: if_splits sum.splits dest: quota_str_exn py_len_exn truncate_msg_exn)

lemma account_lines_exn: "account_lines rp rs ls = Inl e \<Longrightarrow> is_Exception e"
  by (induction rs arbitrary: ls) (auto split: sum.splits dest: account_line_exn)

lemma format_telegram_message_exn:
  "format_telegram_message rp rs t n = Inl e \<Longrightarrow> is_Exception e"
  by (auto simp: format_telegram_message_def Let_def split: sum.splits dest: account_lines_exn)

lemma notify_exn: "notify lib w rs n = (cs, Some e) \<Longrightarrow> is_Exception e"
  by (auto simp: notify_def Let_def split: sum.splits option.splits if_splits
      dest: format_telegram_message_exn)

lemma parse_accounts_exn: "parse_accounts loads s = Inl e \<Longrightarrow> is_Exception e"
  by (auto simp: parse_accounts_def split: if_splits json_outcome.splits pyval.splits)

subsection \<open>Configuration errors and the exit status\<close>

lemma split_on_parts_subset: "\<forall>p \<in> set (split_on sep s). set p \<subseteq> set s"
  by (induction s) (auto split: list.splits)

lemma delimited_accounts_no_hash:
  assumes "35 \<notin> set s"
  shows "delimited_accounts s = []"
proof -
  have "part_accounts p = []" if "p \<in> set (split_on 44 s)" for p
    using that split_on_parts_subset [of 44 s] assms part_accounts_no_hash by blast
  then show ?thesis by (simp add: delimited_accounts_def)
qed

text \<open>
  Claim C9. Where the configuration string does not decode to a JSON list, a
  comma-separated part without \<open>#\<close> adds no account to the list built so far. So a
  non-empty string without any \<open>#\<close> parses to the empty list, and \<^verbatim>\<open>main\<close> then ends by
  \<^verbatim>\<open>sys.exit(1)\<close> without having made a request.
\<close>

theorem no_hash_config_is_fatal:
  assumes "s \<noteq> []" and "35 \<notin> set s"
    and "lib_loads lib s = JSONDecodeError
         \<or> (\<exists>v. lib_loads lib s = Parsed v \<and> (\<forall>items. v \<noteq> PList items))"
    and "env_accounts w = Some s"
  shows "(\<forall>p ps accounts. 35 \<notin> set p \<longrightarrow>
            simple_accounts (p # ps) accounts = simple_accounts ps accounts)
    \<and> parse_accounts (lib_loads lib) s = Inr []
    \<and> main lib w = ([], Inl (SystemExit 1))
    \<and> exit_status (snd (main lib w)) = 1"
proof -
  have skip: "simple_accounts (p # ps) accounts = simple_accounts ps accounts"
    if "35 \<notin> set p" for p ps accounts
    using that set_strip [of p] by (auto simp: Let_def)
  have parse: "parse_accounts (lib_loads lib) s = Inr []"
    using parse_accounts_delimited [of s "lib_loads lib"] assms(1,3)
      delimited_accounts_no_hash [OF assms(2)] by simp
  have "main lib w = ([], Inl (SystemExit 1))"
    using assms(1,4) parse by (simp add: main_def)
  with skip parse show ?thesis by simp
qed

text \<open>The configuration \<^verbatim>\<open>https://a.example\<close>: no \<open>#\<close>, and not JSON.\<close>

theorem no_hash_config_is_fatal_witness:
  "main demo_lib (demo_world (ascii ''https://a.example'')) = ([], Inl (SystemExit 1))
   \<and> exit_status (snd (main demo_lib (demo_world (ascii ''https://a.example'')))) = 1
   \<and> parse_accounts (lib_loads demo_lib) (ascii ''https://a.example'') = Inr []"
  using no_hash_config_is_fatal [of "ascii ''https://a.example''" demo_lib
      "demo_world (ascii ''https://a.example'')"]
  by (simp add: demo_lib_def lib_fixed_def loads_const_def demo_world_def)

lemma all_failed_iff:
  assumes "run_accounts lib rem 1 accts initial_state = (None, st)"
  shows "fail_count st = length accts \<longleftrightarrow> (\<forall>r \<in> set (checkin_results st). \<not> r_success r)"
proof -
  let ?rs = "checkin_results st"
  from run_accounts_complete [OF assms] have l: "length ?rs = length accts"
    and f: "fail_count st = length (filter (\<lambda>r. \<not> r_success r) ?rs)"
    by (auto simp: initial_state_def)
  have "length (filter r_success ?rs) + length (filter (\<lambda>r. \<not> r_success r) ?rs) = length ?rs"
    by (rule sum_length_filter_compl)
  with l f have "fail_count st = length accts \<longleftrightarrow> length (filter r_success ?rs) = 0"
    by linarith
  also have "\<dots> \<longleftrightarrow> (\<forall>r \<in> set ?rs. \<not> r_success r)"
    by (simp add: filter_empty_conv)
  finally show ?thesis .
qed

text \<open>
  Claim C2, amended. For a run that no uncaught exception ends (it returns or ends by
  \<^verbatim>\<open>sys.exit\<close>): the exit status is 1 exactly when the configuration string is missing
  or empty, or the parsed account list is empty (also for a valid but empty JSON list),
  or every outcome has failed; it is 0 exactly when at least one outcome has succeeded;
  and it is one of the two.
\<close>

theorem main_exit_status:
  assumes "snd (main lib w) = Inr () \<or> (\<exists>c. snd (main lib w) = Inl (SystemExit c))"
  shows "(exit_status (snd (main lib w)) = 1 \<longleftrightarrow>
           (case env_accounts w of None \<Rightarrow> [] | Some s \<Rightarrow> s) = []
           \<or> parse_accounts (lib_loads lib)
                (case env_accounts w of None \<Rightarrow> [] | Some s \<Rightarrow> s) = Inr []
           \<or> (\<exists>accounts st.
                 parse_accounts (lib_loads lib)
                   (case env_accounts w of None \<Rightarrow> [] | Some s \<Rightarrow> s) = Inr accounts
                 \<and> run_accounts lib (remote w) 1 accounts initial_state = (None, st)
                 \<and> (\<forall>r \<in> set (checkin_results st). \<not> r_success r)))
    \<and> (exit_status (snd (main lib w)) = 0 \<longleftrightarrow>
           (\<exists>accounts st.
              (case env_accounts w of None \<Rightarrow> [] | Some s \<Rightarrow> s) \<noteq> []
              \<and> parse_accounts (lib_loads lib)
                   (case env_accounts w of None \<Rightarrow> [] | Some s \<Rightarrow> s) = Inr accounts
              \<and> run_accounts lib (remote w) 1 accounts initial_state = (None, st)
              \<and> (\<exists>r \<in> set (checkin_results st). r_success r)))
    \<and> (exit_status (snd (main lib w)) = 0 \<or> exit_status (snd (main lib w)) = 1)"
proof -
  let ?s = "case env_accounts w of None \<Rightarrow> [] | Some s \<Rightarrow> s"
  show ?thesis
  proof (cases "?s = []")
    case True
    then have "main lib w = ([], Inl (SystemExit 1))" by (simp add: main_def)
    with True show ?thesis by simp
  next
    case ne: False
    show ?thesis
    proof (cases "parse_accounts (lib_loads lib) ?s")
      case (Inl e)
      with ne have m: "main lib w = ([], Inl e)" by (simp add: main_def)
      with assms have "\<not> is_Exception e" by auto
      with Inl have False using parse_accounts_exn by blast
      then show ?thesis ..
    next
      case (Inr accounts)
      show ?thesis
      proof (cases "accounts = []")
        case True
        with ne Inr have "main lib w = ([], Inl (SystemExit 1))" by (simp add: main_def)
        with True Inr ne show ?thesis by (auto simp: initial_state_def)
      next
        case nonempty: False
        obtain x st where run: "run_accounts lib (remote w) 1 accounts initial_state = (x, st)"
          by (cases "run_accounts lib (remote w) 1 accounts initial_state")
        show ?thesis
        proof (cases x)
          case (Some e)
          with ne Inr nonempty run have m: "snd (main lib w) = Inl e" by (simp add: main_def)
          have "is_Exception e" using run Some run_accounts_exn by blast
          with m assms have False by auto
          then show ?thesis ..
        next
          case None
          obtain cs y where n: "notify lib w (checkin_results st) (length accounts) = (cs, y)"
            by (cases "notify lib w (checkin_results st) (length accounts)")
          show ?thesis
          proof (cases y)
            case (Some e)
            with ne Inr nonempty run None n have m: "snd (main lib w) = Inl e"
              by (simp add: main_def)
            moreover have "is_Exception e" using n Some notify_exn by blast
            ultimately have False using assms by auto
            then show ?thesis ..
          next
            case nn: None
            have af: "fail_count st = length accounts
                       \<longleftrightarrow> (\<forall>r \<in> set (checkin_results st). \<not> r_success r)"
              using all_failed_iff run None by blast
            from ne Inr nonempty run None n nn have
              m: "snd (main lib w) = (if fail_count st = length accounts then Inl (SystemExit 1)
                                      else Inr ())"
              by (simp add: main_def)
            show ?thesis
              using m af ne Inr nonempty run None by auto
          qed
        qed
      qed
    qed
  qed
qed

lemma demo_main:
  "main demo_lib (demo_world (ascii ''https://a.example#sess1,https://b.example#sess2''))
     = (demo_calls, Inr ())"
proof -
  have "demo_accounts \<noteq> []" and "length demo_accounts = 2"
    by (simp_all add: demo_accounts_def)
  then show ?thesis
    using demo_parse demo_run
    by (simp add: main_def demo_world_def notify_def)
qed

text \<open>The worked run ends with status 0: its first account succeeded.\<close>

theorem main_exit_status_witness:
  "snd (main demo_lib (demo_world (ascii ''https://a.example#sess1,https://b.example#sess2'')))
     = Inr ()
   \<and> exit_status (snd (main demo_lib
         (demo_world (ascii ''https://a.example#sess1,https://b.example#sess2'')))) = 0
   \<and> (\<exists>accounts st.
         parse_accounts (lib_loads demo_lib)
           (ascii ''https://a.example#sess1,https://b.example#sess2'') = Inr accounts
         \<and> run_accounts demo_lib demo_remote 1 accounts initial_state = (None, st)
         \<and> (\<exists>r \<in> set (checkin_results st). r_success r))"
proof -
  let ?w = "demo_world (ascii ''https://a.example#sess1,https://b.example#sess2'')"
  have m: "snd (main demo_lib ?w) = Inr ()" using demo_main by simp
  then have "exit_status (snd (main demo_lib ?w)) = 0" by simp
  with main_exit_status [of demo_lib ?w] m
  have "\<exists>accounts st.
          parse_accounts (lib_loads demo_lib)
            (case env_accounts ?w of None \<Rightarrow> [] | Some s \<Rightarrow> s) = Inr accounts
          \<and> run_accounts demo_lib (remote ?w) 1 accounts initial_state = (None, st)
          \<and> (\<exists>r \<in> set (checkin_results st). r_success r)"
    by blast
  then have "\<exists>accounts st.
         parse_accounts (lib_loads demo_lib)
           (ascii ''https://a.example#sess1,https://b.example#sess2'') = Inr accounts
         \<and> run_accounts demo_lib demo_remote 1 accounts initial_state = (None, st)
         \<and> (\<exists>r \<in> set (checkin_results st). r_success r)"
    by (simp add: demo_world_def)
  with m show ?thesis by simp
qed

text \<open>
  Claim C2 as stated fails: the configuration \<^verbatim>\<open>[]\<close> is present and is valid JSON, an
  empty list of accounts. The run is empty but otherwise valid, no check-in fails, and
  the exit status is 1, not 0.
\<close>

theorem main_exit_status_empty_list:
  "parse_accounts (lib_loads (lib_fixed (Parsed (PList [])) (Inl []) [] [])) (ascii ''[]'') = Inr []
   \<and> main (lib_fixed (Parsed (PList [])) (Inl []) [] []) (demo_world (ascii ''[]''))
       = ([], Inl (SystemExit 1))
   \<and> exit_status (snd (main (lib_fixed (Parsed (PList [])) (Inl []) [] [])
                         (demo_world (ascii ''[]'')))) = 1"
  by (simp add: main_def parse_accounts_def lib_fixed_def loads_const_def demo_world_def)

subsection \<open>Further facts about the shapes of the remote data\<close>

text \<open>
  Where the \<^verbatim>\<open>data\<close> field of a successful check-in is absent or is an object, the
  result is as Claim C1 says: success, the response's message or the default text, and
  the date and the quota read from \<^verbatim>\<open>data\<close> (\<^verbatim>\<open>None\<close> where absent).
\<close>

lemma checkin_success_object_data:
  assumes "status_code resp = 200" and "json resp = Parsed (PDict kvs)"
    and "map_of kvs (ascii ''success'') = Some s" and "truthy s"
    and "map_of kvs (ascii ''data'') = None \<and> d = []
         \<or> map_of kvs (ascii ''data'') = Some (PDict d)"
  shows "checkin rp (Response resp) =
     \<lparr>success = True,
      message = (case map_of kvs (ascii ''message'') of
                   None \<Rightarrow> PStr msg_checkin_ok | Some m \<Rightarrow> m),
      checkin_date = (case map_of d (ascii ''checkin_date'') of None \<Rightarrow> PNone | Some x \<Rightarrow> x),
      quota_awarded = (case map_of d (ascii ''quota_awarded'') of None \<Rightarrow> PNone | Some x \<Rightarrow> x)\<rparr>"
  using assms by (auto simp: checkin_def checkin_body_def)

text \<open>
  Where it is present with any other value (\<^verbatim>\<open>null\<close>, a number, a string, a list), the
  result still reports success, with the text of the \<^verbatim>\<open>AttributeError\<close> as its message.
\<close>

lemma checkin_success_other_data:
  assumes "status_code resp = 200" and "json resp = Parsed (PDict kvs)"
    and "map_of kvs (ascii ''success'') = Some s" and "truthy s"
    and "map_of kvs (ascii ''data'') = Some v" and "\<forall>d. v \<noteq> PDict d"
  shows "checkin rp (Response resp) =
     \<lparr>success = True,
      message = PStr (msg_unknown_error @ ascii '': '' @ exn_str (attribute_error v ''get'')),
      checkin_date = PNone, quota_awarded = PNone\<rparr>"
  using assms
  by (cases v) (auto simp: checkin_def checkin_body_def unknown_error_def)

text \<open>
  The loop body is not total: a profile \<^verbatim>\<open>{"success": true, "data": {"username": null}}\<close>
  makes \<^verbatim>\<open>len(username)\<close> raise outside every \<^verbatim>\<open>try\<close>, before the check-in is attempted.
\<close>

lemma masked_username_null:
  "masked_username (PDict [(ascii ''username'', PNone)]) =
     Inl (TypeError (ascii ''object of type '' @ [39] @ ascii ''NoneType'' @ [39]
                     @ ascii '' has no len()''))"
  by (simp add: masked_username_def)

end
